theory Spec2Isabelle
  imports Complex_Main "HOL-Library.Word"
begin

section \<open>Data model (CuTest.h)\<close>

text \<open>
  Pointers are addresses (\<open>nat\<close>); a pointer that may be \<open>NULL\<close> is an \<open>option\<close>,
  with \<open>None\<close> for \<open>NULL\<close>. A \<open>const char*\<close> that the code reads as a string is the
  \<open>string\<close> of its characters before the terminating NUL. \<open>unsigned long\<close> is the
  32-bit type of the targets the header names: a \<open>nat\<close>, with every addition taken
  modulo \<open>2 ^ 32\<close>. An array of fixed capacity is a function from the index to the slot,
  read only below the capacity.
\<close>

definition CUTEST_MAX_LEN_MESSAGE :: nat where
  "CUTEST_MAX_LEN_MESSAGE = 256"

definition CUTEST_MAX_NUM_CASES :: nat where
  "CUTEST_MAX_NUM_CASES = 256"

definition CUTEST_MAX_NUM_GROUPS :: nat where
  "CUTEST_MAX_NUM_GROUPS = 128"

definition CUTEST_MAX_NUM_ROOT_ITEM :: nat where
  "CUTEST_MAX_NUM_ROOT_ITEM = 32"

datatype cutest_result_t =
  EN_CUTEST_RESULT_UNDEF | EN_CUTEST_RESULT_PASS | EN_CUTEST_RESULT_FAIL

datatype cutest_type_t =
  EN_CUTEST_TYPE_CASE | EN_CUTEST_TYPE_GROUP | EN_CUTEST_TYPE_MODULE

text \<open>
  \<open>cutest_relem_t\<close>: the tag and the union of the three typed pointers with \<open>pItem\<close>;
  all four members of the union are the one stored address.
\<close>

record cutest_relem_t =
  eType :: cutest_type_t
  pItem :: "nat option"

record cutest_root_t =
  pszName :: "string option"
  ulCount :: nat
  asItems :: "nat \<Rightarrow> cutest_relem_t"

record cutest_module_t =
  pszName :: string
  pszFile :: string
  ulLine :: nat
  ppItems :: "(nat \<Rightarrow> nat option) option"

record cutest_group_t =
  pszName :: string
  pszFile :: string
  ulLine :: nat
  ppItems :: "(nat \<Rightarrow> nat option) option"

text \<open>
  \<open>cutest_case_t\<close>. \<open>pfvTestFn\<close> is the address of the test function, \<open>acMessage\<close> the
  string held by the 256-byte buffer. The \<open>jmp_buf sEnv\<close> has no field: the non-local
  exit is the \<open>Jumped\<close> outcome below.
\<close>

record cutest_case_t =
  pszName :: string
  pszFile :: string
  ulLine :: nat
  pfvTestFn :: "nat option"
  eResult :: cutest_result_t
  acMessage :: string
  pszMsgFile :: string
  ulMsgLine :: nat
  bPrintResult :: bool

record cutest_stats_t =
  ulTotal :: nat
  ulPassed :: nat
  ulFailed :: nat

text \<open>The mutable store: the test case behind each address.\<close>

type_synonym heap = "nat \<Rightarrow> cutest_case_t"

text \<open>
  What a call inside a test function does: it returns, it leaves through \<open>longjmp\<close>
  on the \<open>sEnv\<close> of the case at the given address, or the process stops (a failed
  \<open>assert\<close>, a read through a null pointer, a jump to a context that is not set).
\<close>

datatype fault = Assert_Failed | Null_Dereference | Stale_Jump

datatype outcome = Returned heap | Jumped nat heap | Faulted fault

type_synonym cutest_test_fn_t = "nat option \<Rightarrow> heap \<Rightarrow> outcome"

text \<open>
  The constant part of the program: the test function behind each function address and
  the groups and modules behind their addresses (no function of CuTest.c writes to them).
\<close>

record image =
  fn_at :: "nat \<Rightarrow> cutest_test_fn_t"
  group_at :: "nat \<Rightarrow> cutest_group_t"
  module_at :: "nat \<Rightarrow> cutest_module_t"


section \<open>Statistics (CuTestGetStats...)\<close>

definition CuTestGetStats_Case :: "heap \<Rightarrow> nat option \<Rightarrow> fault + cutest_stats_t" where
  "CuTestGetStats_Case h psCase =
     (case psCase of
        None \<Rightarrow> Inl Assert_Failed
      | Some p \<Rightarrow> Inr \<lparr>ulTotal = 1,
                       ulPassed = (if eResult (h p) = EN_CUTEST_RESULT_PASS then 1 else 0),
                       ulFailed = (if eResult (h p) = EN_CUTEST_RESULT_FAIL then 1 else 0)\<rparr>)"

text \<open>The three \<open>+=\<close> of each aggregation loop.\<close>

definition ul_add :: "nat \<Rightarrow> nat \<Rightarrow> nat" where
  "ul_add a b = (a + b) mod 2 ^ 32"

definition stats_add :: "cutest_stats_t \<Rightarrow> cutest_stats_t \<Rightarrow> cutest_stats_t" where
  "stats_add a b = \<lparr>ulTotal = ul_add (ulTotal a) (ulTotal b),
                    ulPassed = ul_add (ulPassed a) (ulPassed b),
                    ulFailed = ul_add (ulFailed a) (ulFailed b)\<rparr>"

definition stats_zero :: cutest_stats_t where
  "stats_zero = \<lparr>ulTotal = 0, ulPassed = 0, ulFailed = 0\<rparr>"

text \<open>One iteration of the loop of \<open>CuTestGetStats_Group\<close>, at index \<open>i\<close>.\<close>

definition CuTestGetStats_Group_iter ::
  "heap \<Rightarrow> (nat \<Rightarrow> nat option) \<Rightarrow> nat \<Rightarrow> fault + cutest_stats_t \<Rightarrow> fault + cutest_stats_t" where
  "CuTestGetStats_Group_iter h items i acc =
     (case acc of
        Inl e \<Rightarrow> Inl e
      | Inr sGroup \<Rightarrow>
          (case items i of
             None \<Rightarrow> Inr sGroup
           | Some p \<Rightarrow>
               (case CuTestGetStats_Case h (Some p) of
                  Inl e \<Rightarrow> Inl e
                | Inr sCase \<Rightarrow> Inr (stats_add sGroup sCase))))"

definition CuTestGetStats_Group :: "image \<Rightarrow> heap \<Rightarrow> nat option \<Rightarrow> fault + cutest_stats_t" where
  "CuTestGetStats_Group img h psGroup =
     (case psGroup of
        None \<Rightarrow> Inl Assert_Failed
      | Some g \<Rightarrow>
          (case cutest_group_t.ppItems (group_at img g) of
             None \<Rightarrow> Inl Assert_Failed
           | Some items \<Rightarrow>
               fold (CuTestGetStats_Group_iter h items) [0..<CUTEST_MAX_NUM_CASES]
                 (Inr stats_zero)))"

definition CuTestGetStats_Module_iter ::
  "image \<Rightarrow> heap \<Rightarrow> (nat \<Rightarrow> nat option) \<Rightarrow> nat \<Rightarrow> fault + cutest_stats_t
     \<Rightarrow> fault + cutest_stats_t" where
  "CuTestGetStats_Module_iter img h items i acc =
     (case acc of
        Inl e \<Rightarrow> Inl e
      | Inr sModule \<Rightarrow>
          (case items i of
             None \<Rightarrow> Inr sModule
           | Some g \<Rightarrow>
               (case CuTestGetStats_Group img h (Some g) of
                  Inl e \<Rightarrow> Inl e
                | Inr sGroup \<Rightarrow> Inr (stats_add sModule sGroup))))"

definition CuTestGetStats_Module :: "image \<Rightarrow> heap \<Rightarrow> nat option \<Rightarrow> fault + cutest_stats_t" where
  "CuTestGetStats_Module img h psModule =
     (case psModule of
        None \<Rightarrow> Inl Assert_Failed
      | Some m \<Rightarrow>
          (case cutest_module_t.ppItems (module_at img m) of
             None \<Rightarrow> Inl Assert_Failed
           | Some items \<Rightarrow>
               fold (CuTestGetStats_Module_iter img h items) [0..<CUTEST_MAX_NUM_GROUPS]
                 (Inr stats_zero)))"

text \<open>
  The \<open>switch\<close> of \<open>CuTestGetStats\<close> on one root element: a null \<open>pItem\<close> leaves
  \<open>sItem\<close> at zero.
\<close>

definition CuTestGetStats_item :: "image \<Rightarrow> heap \<Rightarrow> cutest_relem_t \<Rightarrow> fault + cutest_stats_t" where
  "CuTestGetStats_item img h psItem =
     (case pItem psItem of
        None \<Rightarrow> Inr stats_zero
      | Some a \<Rightarrow>
          (case eType psItem of
             EN_CUTEST_TYPE_CASE \<Rightarrow> CuTestGetStats_Case h (Some a)
           | EN_CUTEST_TYPE_GROUP \<Rightarrow> CuTestGetStats_Group img h (Some a)
           | EN_CUTEST_TYPE_MODULE \<Rightarrow> CuTestGetStats_Module img h (Some a)))"

definition CuTestGetStats_iter ::
  "image \<Rightarrow> heap \<Rightarrow> cutest_root_t \<Rightarrow> nat \<Rightarrow> fault + cutest_stats_t \<Rightarrow> fault + cutest_stats_t" where
  "CuTestGetStats_iter img h r i acc =
     (case acc of
        Inl e \<Rightarrow> Inl e
      | Inr sRun \<Rightarrow>
          (case CuTestGetStats_item img h (asItems r i) of
             Inl e \<Rightarrow> Inl e
           | Inr sItem \<Rightarrow> Inr (stats_add sRun sItem)))"

definition CuTestGetStats :: "image \<Rightarrow> heap \<Rightarrow> cutest_root_t option \<Rightarrow> fault + cutest_stats_t" where
  "CuTestGetStats img h psRoot =
     (case psRoot of
        None \<Rightarrow> Inl Assert_Failed
      | Some r \<Rightarrow>
          if \<not> ulCount r < CUTEST_MAX_NUM_ROOT_ITEM then Inl Assert_Failed
          else fold (CuTestGetStats_iter img h r) [0..<ulCount r] (Inr stats_zero))"

definition CuTest_GetRunResult :: "image \<Rightarrow> heap \<Rightarrow> cutest_root_t option \<Rightarrow> fault + cutest_result_t" where
  "CuTest_GetRunResult img h psRoot =
     (case CuTestGetStats img h psRoot of
        Inl e \<Rightarrow> Inl e
      | Inr sRun \<Rightarrow>
          Inr (if ulPassed sRun = ulTotal sRun then EN_CUTEST_RESULT_PASS
               else EN_CUTEST_RESULT_FAIL))"

section \<open>Formatting (the conversions of printf that the code uses)\<close>

fun dec :: "nat \<Rightarrow> string" where
  "dec n = (if n < 10 then [''0123456789'' ! n]
            else dec (n div 10) @ [''0123456789'' ! (n mod 10)])"

declare dec.simps [simp del]

text \<open>
  \<open>%d\<close> and \<open>%ld\<close> print a signed 32-bit value (\<open>int\<close> and \<open>long\<close> of the 32-bit
  targets); the code passes unsigned values, read here in two's complement.
\<close>

definition printf_d :: "nat \<Rightarrow> string" where
  "printf_d n = (if n mod 2 ^ 32 < 2 ^ 31 then dec (n mod 2 ^ 32)
                 else CHR ''-'' # dec (2 ^ 32 - n mod 2 ^ 32))"

definition printf_ld :: "nat \<Rightarrow> string" where
  "printf_ld n = printf_d n"

text \<open>\<open>%02X\<close> of a byte.\<close>

definition printf_02X :: "8 word \<Rightarrow> string" where
  "printf_02X b = [''0123456789ABCDEF'' ! (unat b div 16), ''0123456789ABCDEF'' ! (unat b mod 16)]"

text \<open>
  \<open>snprintf(psTc->acMessage, sizeof(psTc->acMessage), ...)\<close>: the formatted text, cut
  to what the buffer holds before its terminating NUL.
\<close>

definition snprintf_acMessage :: "string \<Rightarrow> string" where
  "snprintf_acMessage formatted = take (CUTEST_MAX_LEN_MESSAGE - 1) formatted"


section \<open>Assertion engine\<close>

definition CuTestAssertPassed :: "nat option \<Rightarrow> heap \<Rightarrow> outcome" where
  "CuTestAssertPassed psTc h =
     (case psTc of
        None \<Rightarrow> Faulted Assert_Failed
      | Some p \<Rightarrow> Returned (h(p := (h p)\<lparr>eResult := EN_CUTEST_RESULT_PASS\<rparr>)))"

definition CuTestAssertFailed :: "nat option \<Rightarrow> heap \<Rightarrow> outcome" where
  "CuTestAssertFailed psTc h =
     (case psTc of
        None \<Rightarrow> Faulted Assert_Failed
      | Some p \<Rightarrow> Jumped p (h(p := (h p)\<lparr>eResult := EN_CUTEST_RESULT_FAIL\<rparr>)))"

text \<open>
  \<open>pszFmt\<close> is \<open>"%s"\<close>, printing \<open>pszMessage\<close>, when the message is neither null nor
  empty, and the text \<open>"assert failed."\<close> otherwise.
\<close>

definition CuTest_EvalAssert ::
  "nat option \<Rightarrow> string option \<Rightarrow> nat \<Rightarrow> bool \<Rightarrow> string option \<Rightarrow> heap \<Rightarrow> outcome" where
  "CuTest_EvalAssert psTc pszFile' ulLine' bCondition pszMessage h =
     (case psTc of
        None \<Rightarrow> Faulted Assert_Failed
      | Some p \<Rightarrow>
          (case pszFile' of
             None \<Rightarrow> Faulted Assert_Failed
           | Some file \<Rightarrow>
               if bCondition then CuTestAssertPassed psTc h
               else
                 let formatted =
                       (case pszMessage of
                          None \<Rightarrow> ''assert failed.''
                        | Some m \<Rightarrow> if m \<noteq> [] then m else ''assert failed.'')
                 in CuTestAssertFailed psTc
                      (h(p := (h p)\<lparr>acMessage := snprintf_acMessage formatted,
                                      pszMsgFile := file, ulMsgLine := ulLine'\<rparr>))))"

text \<open>
  The loop of \<open>CuTest_EvalAssertMemEquals\<close> over the offsets still to compare. A buffer
  is the function from the offset to the byte there. \<open>CuTestAssertFailed\<close> does not
  return, so the first mismatch ends the loop.
\<close>

fun CuTest_EvalAssertMemEquals_loop ::
  "nat \<Rightarrow> string \<Rightarrow> nat \<Rightarrow> (nat \<Rightarrow> 8 word) \<Rightarrow> (nat \<Rightarrow> 8 word) option \<Rightarrow> nat list
     \<Rightarrow> heap \<Rightarrow> outcome" where
  "CuTest_EvalAssertMemEquals_loop p file line pExpected pActual [] h =
     CuTestAssertPassed (Some p) h"
| "CuTest_EvalAssertMemEquals_loop p file line pExpected pActual (i # rest) h =
     (case pActual of
        None \<Rightarrow> Faulted Null_Dereference
      | Some actual \<Rightarrow>
          let ucExpected = pExpected i; ucActual = actual i in
          if ucExpected \<noteq> ucActual then
            CuTestAssertFailed (Some p)
              (h(p := (h p)\<lparr>acMessage := snprintf_acMessage
                                (''mismatch at offset <'' @ printf_d i @ ''>: expected <0x''
                                 @ printf_02X ucExpected @ ''>, but was <0x''
                                 @ printf_02X ucActual @ ''>''),
                              pszMsgFile := file, ulMsgLine := line\<rparr>))
          else CuTest_EvalAssertMemEquals_loop p file line pExpected pActual rest h)"

definition CuTest_EvalAssertMemEquals ::
  "nat option \<Rightarrow> string option \<Rightarrow> nat \<Rightarrow> (nat \<Rightarrow> 8 word) option \<Rightarrow> (nat \<Rightarrow> 8 word) option
     \<Rightarrow> nat \<Rightarrow> heap \<Rightarrow> outcome" where
  "CuTest_EvalAssertMemEquals psTc pszFile' ulLine' pExpected pActual uSize h =
     (case psTc of
        None \<Rightarrow> Faulted Assert_Failed
      | Some p \<Rightarrow>
          (case pszFile' of
             None \<Rightarrow> Faulted Assert_Failed
           | Some file \<Rightarrow>
               (case pExpected of
                  None \<Rightarrow> Faulted Assert_Failed
                | Some expected \<Rightarrow>
                    CuTest_EvalAssertMemEquals_loop p file ulLine' expected pActual
                      [0..<uSize] h)))"

text \<open>
  \<open>long double\<close> values: the finite ones, the two infinities and NaN, with the
  subtraction, \<open>fabsl\<close>, \<open>isnan\<close> and the comparisons \<open>>\<close> and \<open><=\<close> of C on them
  (every comparison with a NaN is false; the difference of two equal infinities is a
  NaN). The difference of two finite values is taken exact: the rounding and the
  overflow of the format are not modelled.
\<close>

datatype long_double = Fin real | PInf | MInf | NaN

fun isnan :: "long_double \<Rightarrow> bool" where
  "isnan NaN = True"
| "isnan x = False"

fun ld_sub :: "long_double \<Rightarrow> long_double \<Rightarrow> long_double" where
  "ld_sub NaN y = NaN"
| "ld_sub x NaN = NaN"
| "ld_sub (Fin x) (Fin y) = Fin (x - y)"
| "ld_sub (Fin x) PInf = MInf"
| "ld_sub (Fin x) MInf = PInf"
| "ld_sub PInf PInf = NaN"
| "ld_sub PInf y = PInf"
| "ld_sub MInf MInf = NaN"
| "ld_sub MInf y = MInf"

fun fabsl :: "long_double \<Rightarrow> long_double" where
  "fabsl (Fin x) = Fin \<bar>x\<bar>"
| "fabsl PInf = PInf"
| "fabsl MInf = PInf"
| "fabsl NaN = NaN"

fun ld_gt :: "long_double \<Rightarrow> long_double \<Rightarrow> bool" where
  "ld_gt NaN y = False"
| "ld_gt x NaN = False"
| "ld_gt (Fin x) (Fin y) = (y < x)"
| "ld_gt (Fin x) PInf = False"
| "ld_gt (Fin x) MInf = True"
| "ld_gt PInf PInf = False"
| "ld_gt PInf y = True"
| "ld_gt MInf y = False"

fun ld_le :: "long_double \<Rightarrow> long_double \<Rightarrow> bool" where
  "ld_le NaN y = False"
| "ld_le x NaN = False"
| "ld_le (Fin x) (Fin y) = (x \<le> y)"
| "ld_le (Fin x) PInf = True"
| "ld_le (Fin x) MInf = False"
| "ld_le PInf PInf = True"
| "ld_le PInf y = False"
| "ld_le MInf y = True"

text \<open>
  \<open>CuTest_EvalAssertFltEquals\<close>. \<open>printf_Lf\<close> is the text that the conversion \<open>%Lf\<close>
  of the C library makes of a value.
\<close>

definition CuTest_EvalAssertFltEquals ::
  "(long_double \<Rightarrow> string) \<Rightarrow> nat option \<Rightarrow> string option \<Rightarrow> nat \<Rightarrow> long_double
     \<Rightarrow> long_double \<Rightarrow> long_double \<Rightarrow> heap \<Rightarrow> outcome" where
  "CuTest_EvalAssertFltEquals printf_Lf psTc pszFile' ulLine' llfExpected llfActual
       llfTolerance h =
     (case psTc of
        None \<Rightarrow> Faulted Assert_Failed
      | Some p \<Rightarrow>
          (case pszFile' of
             None \<Rightarrow> Faulted Assert_Failed
           | Some file \<Rightarrow>
               if isnan llfTolerance then Faulted Assert_Failed
               else
                 let llfDeviation = fabsl (ld_sub llfActual llfExpected) in
                 if ld_gt llfDeviation llfTolerance then
                   CuTestAssertFailed psTc
                     (h(p := (h p)\<lparr>acMessage := snprintf_acMessage
                                (''expected <'' @ printf_Lf llfExpected @ ''>, but was <''
                                 @ printf_Lf llfActual @ ''> (Deviation <''
                                 @ printf_Lf llfDeviation @ ''> exceeds <''
                                 @ printf_Lf llfTolerance @ ''>)''),
                              pszMsgFile := file, ulMsgLine := ulLine'\<rparr>))
                 else CuTestAssertPassed psTc h))"

text \<open>Sequencing two calls in the body of a test function.\<close>

definition seq :: "(heap \<Rightarrow> outcome) \<Rightarrow> (heap \<Rightarrow> outcome) \<Rightarrow> heap \<Rightarrow> outcome" where
  "seq first rest h = (case first h of Returned h' \<Rightarrow> rest h' | other \<Rightarrow> other)"

section \<open>Test run management\<close>

text \<open>
  What the run driver changes: the cases, the text on the standard output and the
  contents of the files.
\<close>

record world =
  cases :: heap
  stdout :: string
  files :: "string \<Rightarrow> string option"

definition CuTest_AppendRootItem ::
  "cutest_root_t option \<Rightarrow> cutest_type_t \<Rightarrow> nat option \<Rightarrow> fault + cutest_root_t" where
  "CuTest_AppendRootItem psRoot eType' pItem' =
     (case psRoot of
        None \<Rightarrow> Inl Assert_Failed
      | Some r \<Rightarrow>
          if pItem' = None then Inl Assert_Failed
          else if \<not> ulCount r < CUTEST_MAX_NUM_ROOT_ITEM then Inl Assert_Failed
          else Inr (r\<lparr>asItems := (asItems r)(ulCount r := \<lparr>eType = eType', pItem = pItem'\<rparr>),
                      ulCount := ul_add (ulCount r) 1\<rparr>))"

text \<open>The lines that \<open>CuTest_RunTestCase\<close> prints for the Eclipse error parser.\<close>

definition CuTest_RunTestCase_print :: "cutest_case_t \<Rightarrow> string" where
  "CuTest_RunTestCase_print tc =
     (if bPrintResult tc then
        (case eResult tc of
           EN_CUTEST_RESULT_PASS \<Rightarrow>
             pszFile tc @ '':'' @ printf_ld (ulLine tc) @ '':0: info: '' @ pszName tc
               @ '' passed.\<newline>''
         | EN_CUTEST_RESULT_FAIL \<Rightarrow>
             (pszFile tc @ '':'' @ printf_ld (ulLine tc) @ '':0: error: '' @ pszName tc
               @ '' failed.\<newline> '')
             @ (pszMsgFile tc @ '':'' @ printf_ld (ulMsgLine tc) @ '':0: error: ''
               @ acMessage tc @ ''\<newline> '')
         | EN_CUTEST_RESULT_UNDEF \<Rightarrow>
             pszFile tc @ '':'' @ printf_ld (ulLine tc) @ '':0: warning: '' @ pszName tc
               @ '' not evaluated.\<newline>'')
      else [])"

text \<open>
  \<open>if (setjmp(psTc->sEnv) == 0) psTc->pfvTestFn(psTc);\<close> The test function returns, or a
  \<open>longjmp\<close> on this case's \<open>sEnv\<close> comes back here, where \<open>setjmp\<close> then yields 1. A
  jump on the \<open>sEnv\<close> of another case has no context to come back to.
\<close>

definition CuTest_RunTestCase_call :: "image \<Rightarrow> nat \<Rightarrow> nat \<Rightarrow> heap \<Rightarrow> fault + heap" where
  "CuTest_RunTestCase_call img f p h =
     (case fn_at img f (Some p) h of
        Returned h' \<Rightarrow> Inr h'
      | Jumped q h' \<Rightarrow> if q = p then Inr h' else Inl Stale_Jump
      | Faulted e \<Rightarrow> Inl e)"

definition CuTest_RunTestCase :: "image \<Rightarrow> nat option \<Rightarrow> world \<Rightarrow> fault + world" where
  "CuTest_RunTestCase img psTc w =
     (case psTc of
        None \<Rightarrow> Inl Assert_Failed
      | Some p \<Rightarrow>
          (case pfvTestFn (cases w p) of
             None \<Rightarrow> Inl Assert_Failed
           | Some f \<Rightarrow>
               let h = (cases w)(p := (cases w p)\<lparr>eResult := EN_CUTEST_RESULT_UNDEF,
                                                  acMessage := []\<rparr>)
               in (case CuTest_RunTestCase_call img f p h of
                     Inl e \<Rightarrow> Inl e
                   | Inr h' \<Rightarrow>
                       Inr (w\<lparr>cases := h',
                              stdout := stdout w @ CuTest_RunTestCase_print (h' p)\<rparr>))))"

definition CuTest_RunTestGroup_iter ::
  "image \<Rightarrow> (nat \<Rightarrow> nat option) \<Rightarrow> nat \<Rightarrow> fault + world \<Rightarrow> fault + world" where
  "CuTest_RunTestGroup_iter img items i acc =
     (case acc of
        Inl e \<Rightarrow> Inl e
      | Inr w \<Rightarrow>
          (case items i of
             None \<Rightarrow> Inr w
           | Some p \<Rightarrow> CuTest_RunTestCase img (Some p) w))"

definition CuTest_RunTestGroup :: "image \<Rightarrow> nat option \<Rightarrow> world \<Rightarrow> fault + world" where
  "CuTest_RunTestGroup img psGroup w =
     (case psGroup of
        None \<Rightarrow> Inl Assert_Failed
      | Some g \<Rightarrow>
          (case cutest_group_t.ppItems (group_at img g) of
             None \<Rightarrow> Inl Assert_Failed
           | Some items \<Rightarrow>
               fold (CuTest_RunTestGroup_iter img items) [0..<CUTEST_MAX_NUM_CASES] (Inr w)))"

definition CuTest_RunTestModule_iter ::
  "image \<Rightarrow> (nat \<Rightarrow> nat option) \<Rightarrow> nat \<Rightarrow> fault + world \<Rightarrow> fault + world" where
  "CuTest_RunTestModule_iter img items i acc =
     (case acc of
        Inl e \<Rightarrow> Inl e
      | Inr w \<Rightarrow>
          (case items i of
             None \<Rightarrow> Inr w
           | Some g \<Rightarrow> CuTest_RunTestGroup img (Some g) w))"

definition CuTest_RunTestModule :: "image \<Rightarrow> nat option \<Rightarrow> world \<Rightarrow> fault + world" where
  "CuTest_RunTestModule img psModule w =
     (case psModule of
        None \<Rightarrow> Inl Assert_Failed
      | Some m \<Rightarrow>
          (case cutest_module_t.ppItems (module_at img m) of
             None \<Rightarrow> Inl Assert_Failed
           | Some items \<Rightarrow>
               fold (CuTest_RunTestModule_iter img items) [0..<CUTEST_MAX_NUM_GROUPS] (Inr w)))"

text \<open>The macros of the run driver. \<open>EXIT_SUCCESS\<close> is 0 and \<open>EXIT_FAILURE\<close> is 1.\<close>

definition BEGIN_TEST_RUN :: "string \<Rightarrow> cutest_root_t" where
  "BEGIN_TEST_RUN CUTEST_PROJECT_NAME =
     \<lparr>cutest_root_t.pszName = Some CUTEST_PROJECT_NAME, ulCount = 0,
      asItems = (\<lambda>i. \<lparr>eType = EN_CUTEST_TYPE_CASE, pItem = None\<rparr>)\<rparr>"

definition EXIT_SUCCESS :: int where
  "EXIT_SUCCESS = 0"

definition EXIT_FAILURE :: int where
  "EXIT_FAILURE = 1"

definition GET_RUN_RESULT :: "image \<Rightarrow> heap \<Rightarrow> cutest_root_t \<Rightarrow> fault + int" where
  "GET_RUN_RESULT img h root' =
     (case CuTest_GetRunResult img h (Some root') of
        Inl e \<Rightarrow> Inl e
      | Inr res \<Rightarrow> Inr (if res = EN_CUTEST_RESULT_PASS then EXIT_SUCCESS else EXIT_FAILURE))"

definition RUN_TEST_CASE ::
  "image \<Rightarrow> nat option \<Rightarrow> cutest_root_t \<times> world \<Rightarrow> fault + cutest_root_t \<times> world" where
  "RUN_TEST_CASE img x rw =
     (case CuTest_AppendRootItem (Some (fst rw)) EN_CUTEST_TYPE_CASE x of
        Inl e \<Rightarrow> Inl e
      | Inr root' \<Rightarrow>
          (case CuTest_RunTestCase img x (snd rw) of
             Inl e \<Rightarrow> Inl e
           | Inr w \<Rightarrow> Inr (root', w)))"

definition RUN_TEST_GROUP ::
  "image \<Rightarrow> nat option \<Rightarrow> cutest_root_t \<times> world \<Rightarrow> fault + cutest_root_t \<times> world" where
  "RUN_TEST_GROUP img x rw =
     (case CuTest_AppendRootItem (Some (fst rw)) EN_CUTEST_TYPE_GROUP x of
        Inl e \<Rightarrow> Inl e
      | Inr root' \<Rightarrow>
          (case CuTest_RunTestGroup img x (snd rw) of
             Inl e \<Rightarrow> Inl e
           | Inr w \<Rightarrow> Inr (root', w)))"

definition RUN_TEST_MODULE ::
  "image \<Rightarrow> nat option \<Rightarrow> cutest_root_t \<times> world \<Rightarrow> fault + cutest_root_t \<times> world" where
  "RUN_TEST_MODULE img x rw =
     (case CuTest_AppendRootItem (Some (fst rw)) EN_CUTEST_TYPE_MODULE x of
        Inl e \<Rightarrow> Inl e
      | Inr root' \<Rightarrow>
          (case CuTest_RunTestModule img x (snd rw) of
             Inl e \<Rightarrow> Inl e
           | Inr w \<Rightarrow> Inr (root', w)))"


section \<open>Reporters\<close>

definition CuTestPrintSummaryTape_Case :: "heap \<Rightarrow> nat option \<Rightarrow> string \<Rightarrow> fault + string" where
  "CuTestPrintSummaryTape_Case h psCase out =
     (case psCase of
        None \<Rightarrow> Inl Assert_Failed
      | Some p \<Rightarrow>
          (case eResult (h p) of
             EN_CUTEST_RESULT_PASS \<Rightarrow> Inr (out @ ''.'')
           | EN_CUTEST_RESULT_FAIL \<Rightarrow> Inr (out @ ''F'')
           | EN_CUTEST_RESULT_UNDEF \<Rightarrow> Inr (out @ ''?'')))"

text \<open>The loop of \<open>CuTestPrintSummaryTape_Group\<close>: a null slot is the \<open>break\<close>.\<close>

fun CuTestPrintSummaryTape_Group_loop ::
  "heap \<Rightarrow> (nat \<Rightarrow> nat option) \<Rightarrow> nat list \<Rightarrow> string \<Rightarrow> fault + string" where
  "CuTestPrintSummaryTape_Group_loop h items [] out = Inr out"
| "CuTestPrintSummaryTape_Group_loop h items (i # rest) out =
     (case items i of
        None \<Rightarrow> Inr out
      | Some p \<Rightarrow>
          (case CuTestPrintSummaryTape_Case h (Some p) out of
             Inl e \<Rightarrow> Inl e
           | Inr out' \<Rightarrow> CuTestPrintSummaryTape_Group_loop h items rest out'))"

definition CuTestPrintSummaryTape_Group ::
  "image \<Rightarrow> heap \<Rightarrow> nat option \<Rightarrow> string \<Rightarrow> fault + string" where
  "CuTestPrintSummaryTape_Group img h psGroup out =
     (case psGroup of
        None \<Rightarrow> Inl Assert_Failed
      | Some g \<Rightarrow>
          (case cutest_group_t.ppItems (group_at img g) of
             None \<Rightarrow> Inl Assert_Failed
           | Some items \<Rightarrow>
               CuTestPrintSummaryTape_Group_loop h items [0..<CUTEST_MAX_NUM_CASES] out))"

text \<open>\<open>CuTestPrintDetails_Case\<close>, on the counter \<open>*pulNum\<close> and the standard output.\<close>

definition CuTestPrintDetails_Case ::
  "heap \<Rightarrow> nat option \<Rightarrow> nat \<times> string \<Rightarrow> fault + nat \<times> string" where
  "CuTestPrintDetails_Case h psCase st =
     (case psCase of
        None \<Rightarrow> Inl Assert_Failed
      | Some p \<Rightarrow>
          (case eResult (h p) of
             EN_CUTEST_RESULT_FAIL \<Rightarrow>
               (let ulNum = ul_add (fst st) 1 in
                Inr (ulNum, snd st @ [CHR 0x09] @ printf_ld ulNum @ '') '' @ pszName (h p)
                       @ '' -- '' @ pszMsgFile (h p) @ '':'' @ printf_ld (ulMsgLine (h p))
                       @ '': '' @ acMessage (h p) @ ''\<newline>''))
           | EN_CUTEST_RESULT_UNDEF \<Rightarrow>
               (let ulNum = ul_add (fst st) 1 in
                Inr (ulNum, snd st @ [CHR 0x09] @ printf_ld ulNum @ '') '' @ pszName (h p)
                       @ '' -- '' @ pszFile (h p) @ '':'' @ printf_ld (ulLine (h p))
                       @ '': not evaluated\<newline>''))
           | EN_CUTEST_RESULT_PASS \<Rightarrow> Inr st))"

definition CuTestPrintDetails_Group_iter ::
  "heap \<Rightarrow> (nat \<Rightarrow> nat option) \<Rightarrow> nat \<Rightarrow> fault + nat \<times> string \<Rightarrow> fault + nat \<times> string" where
  "CuTestPrintDetails_Group_iter h items i acc =
     (case acc of
        Inl e \<Rightarrow> Inl e
      | Inr st \<Rightarrow>
          (case items i of
             None \<Rightarrow> Inr st
           | Some p \<Rightarrow> CuTestPrintDetails_Case h (Some p) st))"

definition CuTestPrintDetails_Group ::
  "image \<Rightarrow> heap \<Rightarrow> nat option \<Rightarrow> nat \<times> string \<Rightarrow> fault + nat \<times> string" where
  "CuTestPrintDetails_Group img h psGroup st =
     (case psGroup of
        None \<Rightarrow> Inl Assert_Failed
      | Some g \<Rightarrow>
          (case cutest_group_t.ppItems (group_at img g) of
             None \<Rightarrow> Inl Assert_Failed
           | Some items \<Rightarrow>
               fold (CuTestPrintDetails_Group_iter h items) [0..<CUTEST_MAX_NUM_CASES]
                 (Inr st)))"

fun CuTestPrintSummaryTape_Module_loop ::
  "image \<Rightarrow> heap \<Rightarrow> (nat \<Rightarrow> nat option) \<Rightarrow> nat list \<Rightarrow> string \<Rightarrow> fault + string" where
  "CuTestPrintSummaryTape_Module_loop img h items [] out = Inr out"
| "CuTestPrintSummaryTape_Module_loop img h items (i # rest) out =
     (case items i of
        None \<Rightarrow> Inr out
      | Some g \<Rightarrow>
          (case CuTestPrintSummaryTape_Group img h (Some g) out of
             Inl e \<Rightarrow> Inl e
           | Inr out' \<Rightarrow> CuTestPrintSummaryTape_Module_loop img h items rest out'))"

definition CuTestPrintSummaryTape_Module ::
  "image \<Rightarrow> heap \<Rightarrow> nat option \<Rightarrow> string \<Rightarrow> fault + string" where
  "CuTestPrintSummaryTape_Module img h psModule out =
     (case psModule of
        None \<Rightarrow> Inl Assert_Failed
      | Some m \<Rightarrow>
          (case cutest_module_t.ppItems (module_at img m) of
             None \<Rightarrow> Inl Assert_Failed
           | Some items \<Rightarrow>
               CuTestPrintSummaryTape_Module_loop img h items [0..<CUTEST_MAX_NUM_GROUPS] out))"

definition CuTestPrintDetails_Module_iter ::
  "image \<Rightarrow> heap \<Rightarrow> (nat \<Rightarrow> nat option) \<Rightarrow> nat \<Rightarrow> fault + nat \<times> string
     \<Rightarrow> fault + nat \<times> string" where
  "CuTestPrintDetails_Module_iter img h items i acc =
     (case acc of
        Inl e \<Rightarrow> Inl e
      | Inr st \<Rightarrow>
          (case items i of
             None \<Rightarrow> Inr st
           | Some g \<Rightarrow> CuTestPrintDetails_Group img h (Some g) st))"

definition CuTestPrintDetails_Module ::
  "image \<Rightarrow> heap \<Rightarrow> nat option \<Rightarrow> nat \<times> string \<Rightarrow> fault + nat \<times> string" where
  "CuTestPrintDetails_Module img h psModule st =
     (case psModule of
        None \<Rightarrow> Inl Assert_Failed
      | Some m \<Rightarrow>
          (case cutest_module_t.ppItems (module_at img m) of
             None \<Rightarrow> Inl Assert_Failed
           | Some items \<Rightarrow>
               fold (CuTestPrintDetails_Module_iter img h items) [0..<CUTEST_MAX_NUM_GROUPS]
                 (Inr st)))"

text \<open>
  The HTML report. The stream \<open>f\<close> is the text written to the file so far (the static
  helpers are only called on the open stream), paired with the counter \<open>*pulNum\<close>
  where a helper takes it.
\<close>

definition CUTEST_VERSION :: string where
  "CUTEST_VERSION = ''unknown''"

definition CuTestGenerateReport_CaseHeader :: "string \<Rightarrow> string" where
  \<open>CuTestGenerateReport_CaseHeader f =
     f @ ''<table border="1"><tr><th>Nr.</th><th>Name</th><th>File</th><th>Result</th><th>Message</th></tr>''\<close>

definition CuTestGenerateReport_CaseLine ::
  "heap \<Rightarrow> nat option \<Rightarrow> nat \<times> string \<Rightarrow> fault + nat \<times> string" where
  \<open>CuTestGenerateReport_CaseLine h psCase st =
     (case psCase of
        None \<Rightarrow> Inl Assert_Failed
      | Some p \<Rightarrow>
          let ulNum = ul_add (fst st) 1;
              (pszColor, pszResult, bPrintMsg) =
                (case eResult (h p) of
                   EN_CUTEST_RESULT_PASS \<Rightarrow> (''lime'', ''pass'', False)
                 | EN_CUTEST_RESULT_FAIL \<Rightarrow> (''red'', ''fail'', True)
                 | EN_CUTEST_RESULT_UNDEF \<Rightarrow> (''silver'', ''invalid'', False));
              pszFile' = (if bPrintMsg then pszMsgFile (h p) else pszFile (h p));
              ulLine' = (if bPrintMsg then ulMsgLine (h p) else ulLine (h p));
              pszMessage = (if bPrintMsg then acMessage (h p) else [])
          in Inr (ulNum,
                  snd st @ ''<tr><td>'' @ printf_ld ulNum @ ''</td><td>'' @ pszName (h p)
                    @ ''</td><td><a href="'' @ pszFile' @ ''#L'' @ printf_ld ulLine' @ ''">''
                    @ pszFile' @ ''#L'' @ printf_ld ulLine'
                    @ ''</a></td><td style="background-color: '' @ pszColor @ ''">''
                    @ pszResult @ ''</td><td>'' @ pszMessage @ ''</td></tr>''))\<close>

definition CuTestGenerateReport_CaseFooter :: "string \<Rightarrow> string" where
  "CuTestGenerateReport_CaseFooter f = f @ ''</table>''"

definition CuTestGenerateReport_Group_iter ::
  "heap \<Rightarrow> (nat \<Rightarrow> nat option) \<Rightarrow> nat \<Rightarrow> fault + nat \<times> string \<Rightarrow> fault + nat \<times> string" where
  "CuTestGenerateReport_Group_iter h items i acc =
     (case acc of
        Inl e \<Rightarrow> Inl e
      | Inr st \<Rightarrow>
          (case items i of
             None \<Rightarrow> Inr st
           | Some p \<Rightarrow> CuTestGenerateReport_CaseLine h (Some p) st))"

definition CuTestGenerateReport_Group ::
  "image \<Rightarrow> heap \<Rightarrow> nat option \<Rightarrow> nat \<times> string \<Rightarrow> fault + nat \<times> string" where
  "CuTestGenerateReport_Group img h psGroup st =
     (case psGroup of
        None \<Rightarrow> Inl Assert_Failed
      | Some g \<Rightarrow>
          (case cutest_group_t.ppItems (group_at img g) of
             None \<Rightarrow> Inl Assert_Failed
           | Some items \<Rightarrow>
               (case fold (CuTestGenerateReport_Group_iter h items) [0..<CUTEST_MAX_NUM_CASES]
                       (Inr (fst st,
                             CuTestGenerateReport_CaseHeader
                               (snd st @ ''<h3>'' @ cutest_group_t.pszName (group_at img g)
                                  @ ''</h3>''))) of
                  Inl e \<Rightarrow> Inl e
                | Inr st' \<Rightarrow> Inr (fst st', CuTestGenerateReport_CaseFooter (snd st')))))"

definition CuTestGenerateReport_Module_iter ::
  "image \<Rightarrow> heap \<Rightarrow> (nat \<Rightarrow> nat option) \<Rightarrow> nat \<Rightarrow> fault + nat \<times> string
     \<Rightarrow> fault + nat \<times> string" where
  "CuTestGenerateReport_Module_iter img h items i acc =
     (case acc of
        Inl e \<Rightarrow> Inl e
      | Inr st \<Rightarrow>
          (case items i of
             None \<Rightarrow> Inr st
           | Some g \<Rightarrow> CuTestGenerateReport_Group img h (Some g) st))"

definition CuTestGenerateReport_Module ::
  "image \<Rightarrow> heap \<Rightarrow> nat option \<Rightarrow> nat \<times> string \<Rightarrow> fault + nat \<times> string" where
  "CuTestGenerateReport_Module img h psModule st =
     (case psModule of
        None \<Rightarrow> Inl Assert_Failed
      | Some m \<Rightarrow>
          (case cutest_module_t.ppItems (module_at img m) of
             None \<Rightarrow> Inl Assert_Failed
           | Some items \<Rightarrow>
               fold (CuTestGenerateReport_Module_iter img h items) [0..<CUTEST_MAX_NUM_GROUPS]
                 (Inr (fst st,
                       snd st @ ''<h2>'' @ cutest_module_t.pszName (module_at img m)
                         @ ''</h2>''))))"

text \<open>
  The C library, as far as the report needs it: \<open>strftime_gmtime t\<close> is the text that
  \<open>strftime\<close> with the format \<open>"%FT%T%z"\<close> makes of \<open>gmtime(&t)\<close>, or \<open>None\<close> where
  \<open>gmtime\<close> returns \<open>NULL\<close>; \<open>fopen_w path\<close> tells whether \<open>fopen(path, "w")\<close> yields a
  stream.
\<close>

record libc =
  strftime_gmtime :: "int \<Rightarrow> string option"
  fopen_w :: "string \<Rightarrow> bool"

definition CUTEST_TIMESTAMP_MAX_LEN :: nat where
  "CUTEST_TIMESTAMP_MAX_LEN = 24"

text \<open>
  \<open>strftime\<close> returns 0 when the text and its NUL do not fit the buffer of
  \<open>CUTEST_TIMESTAMP_MAX_LEN + 1\<close> bytes; the code then ends the buffer at index 0.
\<close>

definition CuTestGetTimestampString :: "libc \<Rightarrow> int option \<Rightarrow> fault + string" where
  "CuTestGetTimestampString c pTime =
     (case pTime of
        None \<Rightarrow> Inl Assert_Failed
      | Some t \<Rightarrow>
          (case strftime_gmtime c t of
             None \<Rightarrow> Inl Assert_Failed
           | Some text \<Rightarrow>
               Inr (if length text < CUTEST_TIMESTAMP_MAX_LEN + 1 then text else [])))"

text \<open>The \<open>switch\<close> in the loop of \<open>CuTest_GenerateRunReport\<close>, on one root element.\<close>

definition CuTest_GenerateRunReport_item ::
  "image \<Rightarrow> heap \<Rightarrow> cutest_relem_t \<Rightarrow> nat \<times> string \<Rightarrow> fault + nat \<times> string" where
  "CuTest_GenerateRunReport_item img h psItem st =
     (case eType psItem of
        EN_CUTEST_TYPE_CASE \<Rightarrow>
          (case CuTestGenerateReport_CaseLine h (pItem psItem)
                  (fst st, CuTestGenerateReport_CaseHeader (snd st)) of
             Inl e \<Rightarrow> Inl e
           | Inr st' \<Rightarrow> Inr (fst st', CuTestGenerateReport_CaseFooter (snd st')))
      | EN_CUTEST_TYPE_GROUP \<Rightarrow> CuTestGenerateReport_Group img h (pItem psItem) st
      | EN_CUTEST_TYPE_MODULE \<Rightarrow> CuTestGenerateReport_Module img h (pItem psItem) st)"

definition CuTest_GenerateRunReport_iter ::
  "image \<Rightarrow> heap \<Rightarrow> cutest_root_t \<Rightarrow> nat \<Rightarrow> fault + nat \<times> string \<Rightarrow> fault + nat \<times> string" where
  "CuTest_GenerateRunReport_iter img h r i acc =
     (case acc of
        Inl e \<Rightarrow> Inl e
      | Inr st \<Rightarrow> CuTest_GenerateRunReport_item img h (asItems r i) st)"

text \<open>The text of the report, from the header to the closing tag.\<close>

definition CuTest_GenerateRunReport_text ::
  "image \<Rightarrow> libc \<Rightarrow> heap \<Rightarrow> cutest_root_t \<Rightarrow> string \<Rightarrow> int option \<Rightarrow> fault + string" where
  \<open>CuTest_GenerateRunReport_text img c h r name pTime =
     (case CuTestGetTimestampString c pTime of
        Inl e \<Rightarrow> Inl e
      | Inr stamp \<Rightarrow>
          (case fold (CuTest_GenerateRunReport_iter img h r) [0..<ulCount r]
                  (Inr (0,
                     ''<!DOCTYPE html>\<newline>''
                     @ ''<html>\<newline>''
                     @ ''    <head>\<newline>''
                     @ ''        <title>Unit Test Report</title>\<newline>''
                     @ ''    </head>\<newline>''
                     @ ''    <body>\<newline>''
                     @ ''        <h1>Unit Test Report &ndash; '' @ name @ ''</h1><hr/>''
                     @ ''        <p><b>Framework Version:</b> CuTest '' @ CUTEST_VERSION @ ''<br/>''
                     @ ''           <b>Test run completed at:</b> '' @ stamp @ ''</p>\<newline>'')) of
             Inl e \<Rightarrow> Inl e
           | Inr st \<Rightarrow>
               (case CuTestGetStats img h (Some r) of
                  Inl e \<Rightarrow> Inl e
                | Inr sStats \<Rightarrow>
                    Inr (snd st
                         @ ''        <hr/><p>'' @ printf_ld (ulTotal sStats) @ '' runs, ''
                         @ printf_ld (ulPassed sStats) @ '' passes, ''
                         @ printf_ld (ulFailed sStats) @ '' fails\<newline></p>''
                         @ ''    </body>\<newline>''
                         @ ''</html>''))))\<close>

definition CuTest_GenerateRunReport ::
  "image \<Rightarrow> libc \<Rightarrow> cutest_root_t option \<Rightarrow> int option \<Rightarrow> string option \<Rightarrow> world
     \<Rightarrow> fault + world" where
  "CuTest_GenerateRunReport img c psRoot pTime pszFile' w =
     (case psRoot of
        None \<Rightarrow> Inl Assert_Failed
      | Some r \<Rightarrow>
          (case cutest_root_t.pszName r of
             None \<Rightarrow> Inl Assert_Failed
           | Some name \<Rightarrow>
               if \<not> ulCount r < CUTEST_MAX_NUM_ROOT_ITEM then Inl Assert_Failed
               else if pTime = None then Inl Assert_Failed
               else
                 (case pszFile' of
                    None \<Rightarrow> Inl Assert_Failed
                  | Some path \<Rightarrow>
                      if \<not> fopen_w c path then Inr w
                      else
                        (case CuTest_GenerateRunReport_text img c (cases w) r name pTime of
                           Inl e \<Rightarrow> Inl e
                         | Inr text \<Rightarrow> Inr (w\<lparr>files := (files w)(path \<mapsto> text)\<rparr>)))))"

section \<open>The demo program (test/main.c)\<close>

text \<open>
  Two cases, the second of which always fails, in one group in one module. The objects
  are numbered in the order of their definition: the cases and their test functions at
  addresses 1 and 2, the group and the module at address 1.
\<close>

definition TEST_Module_MyGroup_Case1_TestFn :: cutest_test_fn_t where
  "TEST_Module_MyGroup_Case1_TestFn tc = CuTest_EvalAssert tc (Some ''test/main.c'') 23 True None"

definition TEST_Module_MyGroup_Case2_TestFn :: cutest_test_fn_t where
  "TEST_Module_MyGroup_Case2_TestFn tc =
     CuTest_EvalAssert tc (Some ''test/main.c'') 28 False (Some ''always fails'')"

text \<open>The initialiser that \<open>TEST_CASE\<close> writes for the case \<open>x\<close> defined at a line.\<close>

definition TEST_CASE :: "string \<Rightarrow> string \<Rightarrow> nat \<Rightarrow> nat \<Rightarrow> cutest_case_t" where
  "TEST_CASE x file line fn =
     \<lparr>pszName = x, pszFile = file, ulLine = line, pfvTestFn = Some fn,
      eResult = EN_CUTEST_RESULT_UNDEF, acMessage = [], pszMsgFile = file,
      ulMsgLine = line, bPrintResult = True\<rparr>"

definition main_heap :: heap where
  "main_heap = (\<lambda>a. if a = 2 then TEST_CASE ''TEST_Module_MyGroup_Case2'' ''test/main.c'' 26 2
                     else TEST_CASE ''TEST_Module_MyGroup_Case1'' ''test/main.c'' 21 1)"

definition TestMyModule_MyGroup :: cutest_group_t where
  "TestMyModule_MyGroup =
     \<lparr>cutest_group_t.pszName = ''TestMyModule_MyGroup'', pszFile = ''test/main.c'', ulLine = 31,
      ppItems = Some (\<lambda>i. if i = 0 then Some 1 else if i = 1 then Some 2 else None)\<rparr>"

definition TestMyModule :: cutest_module_t where
  "TestMyModule =
     \<lparr>cutest_module_t.pszName = ''TestMyModule'', pszFile = ''test/main.c'', ulLine = 37,
      ppItems = Some (\<lambda>i. if i = 0 then Some 1 else None)\<rparr>"

definition main_image :: image where
  "main_image =
     \<lparr>fn_at = (\<lambda>a. if a = 2 then TEST_Module_MyGroup_Case2_TestFn
                     else TEST_Module_MyGroup_Case1_TestFn),
      group_at = (\<lambda>a. TestMyModule_MyGroup),
      module_at = (\<lambda>a. TestMyModule)\<rparr>"

text \<open>The root of \<open>main\<close> after \<open>RUN_TEST_MODULE(TestMyModule)\<close>.\<close>

definition main_root :: cutest_root_t where
  "main_root =
     \<lparr>cutest_root_t.pszName = Some ''Unnamed Project'', ulCount = 1,
      asItems = (\<lambda>i. if i = 0 then \<lparr>eType = EN_CUTEST_TYPE_MODULE, pItem = Some 1\<rparr>
                     else \<lparr>eType = EN_CUTEST_TYPE_CASE, pItem = None\<rparr>)\<rparr>"

text \<open>
  A group whose array has a gap: cases at the indices 0 and 2 and a null pointer at
  index 1, as the initialiser \<open>{ Case1, NULL, Case2 }\<close> makes it.
\<close>

definition gap_group :: cutest_group_t where
  "gap_group =
     \<lparr>cutest_group_t.pszName = ''Gap'', pszFile = ''test/main.c'', ulLine = 31,
      ppItems = Some (\<lambda>i. if i = 0 then Some 1 else if i = 2 then Some 2 else None)\<rparr>"

definition gap_image :: image where
  "gap_image = main_image\<lparr>group_at := (\<lambda>a. gap_group)\<rparr>"

section \<open>The cases that an aggregation visits\<close>

text \<open>
  The addresses of the cases that the loops of \<open>CuTestGetStats_Group\<close>,
  \<open>CuTestGetStats_Module\<close> and \<open>CuTestGetStats\<close> hand to \<open>CuTestGetStats_Case\<close>, in
  the order of the visits: every non-null slot below the capacity of a group, the same
  for the groups of a module, and per root element what its tag selects. A case that
  is reached twice is listed twice.
\<close>

definition cases_of_group :: "image \<Rightarrow> nat \<Rightarrow> nat list" where
  "cases_of_group img g =
     (case cutest_group_t.ppItems (group_at img g) of
        None \<Rightarrow> []
      | Some items \<Rightarrow> List.map_filter items [0..<CUTEST_MAX_NUM_CASES])"

definition cases_of_module :: "image \<Rightarrow> nat \<Rightarrow> nat list" where
  "cases_of_module img m =
     (case cutest_module_t.ppItems (module_at img m) of
        None \<Rightarrow> []
      | Some items \<Rightarrow>
          concat (map (cases_of_group img) (List.map_filter items [0..<CUTEST_MAX_NUM_GROUPS])))"

definition cases_of_item :: "image \<Rightarrow> cutest_relem_t \<Rightarrow> nat list" where
  "cases_of_item img psItem =
     (case pItem psItem of
        None \<Rightarrow> []
      | Some a \<Rightarrow>
          (case eType psItem of
             EN_CUTEST_TYPE_CASE \<Rightarrow> [a]
           | EN_CUTEST_TYPE_GROUP \<Rightarrow> cases_of_group img a
           | EN_CUTEST_TYPE_MODULE \<Rightarrow> cases_of_module img a))"

definition cases_of_root :: "image \<Rightarrow> cutest_root_t \<Rightarrow> nat list" where
  "cases_of_root img r = concat (map (\<lambda>i. cases_of_item img (asItems r i)) [0..<ulCount r])"

text \<open>The counters of a list of visited cases, without wrap-around.\<close>

definition stats_of :: "heap \<Rightarrow> nat list \<Rightarrow> cutest_stats_t" where
  "stats_of h ps =
     \<lparr>ulTotal = length ps,
      ulPassed = length (filter (\<lambda>p. eResult (h p) = EN_CUTEST_RESULT_PASS) ps),
      ulFailed = length (filter (\<lambda>p. eResult (h p) = EN_CUTEST_RESULT_FAIL) ps)\<rparr>"

definition wrap_stats :: "cutest_stats_t \<Rightarrow> cutest_stats_t" where
  "wrap_stats s = \<lparr>ulTotal = ulTotal s mod 2 ^ 32, ulPassed = ulPassed s mod 2 ^ 32,
                   ulFailed = ulFailed s mod 2 ^ 32\<rparr>"

definition plus_stats :: "cutest_stats_t \<Rightarrow> cutest_stats_t \<Rightarrow> cutest_stats_t" where
  "plus_stats a b = \<lparr>ulTotal = ulTotal a + ulTotal b, ulPassed = ulPassed a + ulPassed b,
                     ulFailed = ulFailed a + ulFailed b\<rparr>"

text \<open>The cases of the demo program once the first has passed and the second has not run.\<close>

definition one_passed_heap :: heap where
  "one_passed_heap = main_heap(1 := (main_heap 1)\<lparr>eResult := EN_CUTEST_RESULT_PASS\<rparr>)"

section \<open>Further test programs\<close>

text \<open>
  A test function with an empty body, and one with a passing assertion after a failing
  one, each put at every function address of the demo program.
\<close>

definition empty_TestFn :: cutest_test_fn_t where
  "empty_TestFn tc = Returned"

definition fail_then_pass_TestFn :: cutest_test_fn_t where
  "fail_then_pass_TestFn tc =
     seq (CuTest_EvalAssert tc (Some ''test/main.c'') 28 False (Some ''always fails''))
         (CuTest_EvalAssert tc (Some ''test/main.c'') 29 True None)"

text \<open>
  Two buffers of \<open>2 ^ 31 + 1\<close> bytes that agree on the first \<open>2 ^ 31\<close> bytes and differ
  in the last one.
\<close>

definition large_expected :: "nat \<Rightarrow> 8 word" where
  "large_expected i = 0x00"

definition large_actual :: "nat \<Rightarrow> 8 word" where
  "large_actual i = (if i = 2147483648 then 0x01 else 0x00)"

text \<open>
  A driver that registers the same item \<open>n\<close> times in a run, as \<open>n\<close> uses of
  \<open>RUN_TEST_CASE\<close> do with \<open>CuTest_AppendRootItem\<close>.
\<close>

fun append_items ::
  "nat \<Rightarrow> cutest_type_t \<Rightarrow> nat option \<Rightarrow> cutest_root_t \<Rightarrow> fault + cutest_root_t" where
  "append_items 0 t x r = Inr r"
| "append_items (Suc n) t x r =
     (case CuTest_AppendRootItem (Some r) t x of
        Inl e \<Rightarrow> Inl e
      | Inr r' \<Rightarrow> append_items n t x r')"

text \<open>
  A test function that looks at its own case: it asserts that the result is still
  undefined and the message empty, as
  \<open>CuAssert(_tc->eResult == EN_CUTEST_RESULT_UNDEF && _tc->acMessage[0] == 0, NULL)\<close>
  does.
\<close>

definition probe_TestFn :: cutest_test_fn_t where
  "probe_TestFn tc h =
     (case tc of
        None \<Rightarrow> Faulted Null_Dereference
      | Some p \<Rightarrow>
          CuTest_EvalAssert tc (Some ''test/main.c'') 40
            (eResult (h p) = EN_CUTEST_RESULT_UNDEF \<and> acMessage (h p) = []) None h)"

definition probe_image :: image where
  "probe_image = main_image\<lparr>fn_at := (\<lambda>a. probe_TestFn)\<rparr>"

definition empty_image :: image where
  "empty_image = main_image\<lparr>fn_at := (\<lambda>a. empty_TestFn)\<rparr>"

definition fail_then_pass_image :: image where
  "fail_then_pass_image = main_image\<lparr>fn_at := (\<lambda>a. fail_then_pass_TestFn)\<rparr>"

text \<open>The first case of the demo program after a failed run with a printed message.\<close>

definition failed_heap :: heap where
  "failed_heap = main_heap(1 := (main_heap 1)\<lparr>eResult := EN_CUTEST_RESULT_FAIL,
                                              acMessage := ''assert failed.''\<rparr>)"

definition main_world :: world where
  "main_world = \<lparr>cases = main_heap, stdout = [], files = (\<lambda>path. None)\<rparr>"

text \<open>
  Two buffers of four bytes that differ first at offset 2 and again at offset 3.
\<close>

definition buffer_expected :: "nat \<Rightarrow> 8 word" where
  "buffer_expected i = (if i = 2 then 0x10 else 0x00)"

definition buffer_actual :: "nat \<Rightarrow> 8 word" where
  "buffer_actual i = (if i = 2 then 0xAB else if i = 3 then 0x01 else 0x00)"

text \<open>
  A C library whose \<open>fopen\<close> fails on every path, and one whose \<open>fopen\<close> succeeds;
  both print the time stamp 0 as the start of the epoch.
\<close>

definition readonly_libc :: libc where
  "readonly_libc = \<lparr>strftime_gmtime = (\<lambda>t. Some ''1970-01-01T00:00:00+0000''),
                    fopen_w = (\<lambda>path. False)\<rparr>"

definition writable_libc :: libc where
  "writable_libc = \<lparr>strftime_gmtime = (\<lambda>t. Some ''1970-01-01T00:00:00+0000''),
                    fopen_w = (\<lambda>path. True)\<rparr>"

section \<open>Visits in order\<close>

text \<open>
  \<open>visit F ps s\<close> calls \<open>F\<close> on the addresses \<open>ps\<close> one after the other, threading the
  state, and stops at the first fault. \<open>packed_prefix items n\<close> are the slots below \<open>n\<close>
  that come before the first null slot.
\<close>

fun visit :: "(nat \<Rightarrow> 's \<Rightarrow> fault + 's) \<Rightarrow> nat list \<Rightarrow> 's \<Rightarrow> fault + 's" where
  "visit F [] s = Inr s"
| "visit F (p # ps) s = (case F p s of Inl e \<Rightarrow> Inl e | Inr s' \<Rightarrow> visit F ps s')"

definition packed_prefix :: "(nat \<Rightarrow> nat option) \<Rightarrow> nat \<Rightarrow> nat list" where
  "packed_prefix items n = List.map_filter id (takeWhile (\<lambda>slot. slot \<noteq> None) (map items [0..<n]))"

definition groups_of_module :: "image \<Rightarrow> nat \<Rightarrow> nat list" where
  "groups_of_module img m =
     (case cutest_module_t.ppItems (module_at img m) of
        None \<Rightarrow> []
      | Some items \<Rightarrow> List.map_filter items [0..<CUTEST_MAX_NUM_GROUPS])"


section \<open>Properties of the aggregation\<close>

lemma stats_add_wrap: "stats_add a b = wrap_stats (plus_stats a b)"
  by (simp add: stats_add_def wrap_stats_def plus_stats_def ul_add_def)

lemma wrap_plus_wrap: "wrap_stats (plus_stats (wrap_stats a) b) = wrap_stats (plus_stats a b)"
  by (simp add: wrap_stats_def plus_stats_def mod_add_left_eq)

lemma plus_stats_assoc: "plus_stats (plus_stats a b) c = plus_stats a (plus_stats b c)"
  by (simp add: plus_stats_def)

lemma plus_stats_zero: "plus_stats a stats_zero = a" "plus_stats stats_zero a = a"
  by (simp_all add: plus_stats_def stats_zero_def)

lemma stats_of_append: "stats_of h (ps @ qs) = plus_stats (stats_of h ps) (stats_of h qs)"
  by (simp add: stats_of_def plus_stats_def)

lemma stats_of_Nil: "stats_of h [] = stats_zero"
  by (simp add: stats_of_def stats_zero_def)

lemma stats_of_single:
  "CuTestGetStats_Case h (Some p) = Inr (stats_of h [p])"
  by (simp add: CuTestGetStats_Case_def stats_of_def)

lemma stats_of_small: "length ps < 2 ^ 32 \<Longrightarrow> wrap_stats (stats_of h ps) = stats_of h ps"
proof -
  assume len: "length ps < 2 ^ 32"
  have "length (filter P ps) < 2 ^ 32" for P
    by (rule le_less_trans [OF length_filter_le len])
  with len show ?thesis
    by (simp add: wrap_stats_def stats_of_def)
qed

lemma wrap_wrap: "wrap_stats (wrap_stats a) = wrap_stats a"
  by (simp add: wrap_stats_def)

lemma wrap_zero: "wrap_stats stats_zero = stats_zero"
  by (simp add: wrap_stats_def stats_zero_def)

lemma map_filter_append: "List.map_filter f (xs @ ys) = List.map_filter f xs @ List.map_filter f ys"
  by (simp add: List.map_filter_def)

lemma length_map_filter_le: "length (List.map_filter f xs) \<le> length xs"
  by (simp add: List.map_filter_def)

lemma stats_of_Cons: "stats_of h (p # qs) = plus_stats (stats_of h [p]) (stats_of h qs)"
  using stats_of_append [of h "[p]" qs] by simp

text \<open>What the loop of the group aggregator computes over any list of indices.\<close>

lemma CuTestGetStats_Group_fold:
  "wrap_stats acc = acc \<Longrightarrow>
   fold (CuTestGetStats_Group_iter h items) is (Inr acc) =
     Inr (wrap_stats (plus_stats acc (stats_of h (List.map_filter items is))))"
proof (induction "is" arbitrary: acc)
  case Nil
  then show ?case by (simp add: map_filter_simps stats_of_Nil plus_stats_zero)
next
  case (Cons i rest)
  show ?case
  proof (cases "items i")
    case None
    have "CuTestGetStats_Group_iter h items i (Inr acc) = Inr acc"
      using None by (simp add: CuTestGetStats_Group_iter_def)
    moreover have "List.map_filter items (i # rest) = List.map_filter items rest"
      using None by (simp add: map_filter_simps)
    ultimately show ?thesis
      using Cons.IH [OF Cons.prems] by simp
  next
    case (Some p)
    let ?acc = "wrap_stats (plus_stats acc (stats_of h [p]))"
    have step: "CuTestGetStats_Group_iter h items i (Inr acc) = Inr ?acc"
      using Some by (simp add: CuTestGetStats_Group_iter_def stats_of_single stats_add_wrap)
    have mf: "List.map_filter items (i # rest) = p # List.map_filter items rest"
      using Some by (simp add: map_filter_simps)
    have "fold (CuTestGetStats_Group_iter h items) (i # rest) (Inr acc) =
            fold (CuTestGetStats_Group_iter h items) rest (Inr ?acc)"
      by (simp add: step)
    also have "\<dots> = Inr (wrap_stats (plus_stats ?acc (stats_of h (List.map_filter items rest))))"
      by (rule Cons.IH) (rule wrap_wrap)
    also have "\<dots> = Inr (wrap_stats (plus_stats acc (stats_of h (List.map_filter items (i # rest)))))"
      by (simp only: mf wrap_plus_wrap plus_stats_assoc
            stats_of_Cons [of h p "List.map_filter items rest"])
    finally show ?thesis .
  qed
qed

lemma length_map_filter_upt: "length (List.map_filter f [0..<n]) \<le> n"
  using length_map_filter_le [of f "[0..<n]"] by simp

lemma length_cases_of_group: "length (cases_of_group img g) \<le> 256"
  by (simp add: cases_of_group_def CUTEST_MAX_NUM_CASES_def length_map_filter_upt
      split: option.splits)

lemma CuTestGetStats_Group_eq:
  assumes "CuTestGetStats_Group img h (Some g) = Inr s"
  shows "s = stats_of h (cases_of_group img g)"
proof -
  obtain items where items: "cutest_group_t.ppItems (group_at img g) = Some items"
    using assms by (auto simp: CuTestGetStats_Group_def split: option.splits)
  have "length (cases_of_group img g) < 2 ^ 32"
    using length_cases_of_group [of img g] by simp
  then have "wrap_stats (stats_of h (cases_of_group img g)) = stats_of h (cases_of_group img g)"
    by (rule stats_of_small)
  then show ?thesis
    using assms items CuTestGetStats_Group_fold [OF wrap_zero, of h items "[0..<CUTEST_MAX_NUM_CASES]"]
    by (simp add: CuTestGetStats_Group_def cases_of_group_def plus_stats_zero)
qed

lemma CuTestGetStats_Module_fold:
  "wrap_stats acc = acc \<Longrightarrow>
   fold (CuTestGetStats_Module_iter img h items) is (Inr acc) = Inr s \<Longrightarrow>
   s = wrap_stats (plus_stats acc
         (stats_of h (concat (map (cases_of_group img) (List.map_filter items is)))))"
proof (induction "is" arbitrary: acc)
  case Nil
  then show ?case by (simp add: map_filter_simps stats_of_Nil plus_stats_zero)
next
  case (Cons i rest)
  show ?case
  proof (cases "items i")
    case None
    have "CuTestGetStats_Module_iter img h items i (Inr acc) = Inr acc"
      using None by (simp add: CuTestGetStats_Module_iter_def)
    moreover have "List.map_filter items (i # rest) = List.map_filter items rest"
      using None by (simp add: map_filter_simps)
    ultimately show ?thesis
      using Cons.IH [OF Cons.prems(1)] Cons.prems(2) by simp
  next
    case (Some g)
    have mf: "List.map_filter items (i # rest) = g # List.map_filter items rest"
      using Some by (simp add: map_filter_simps)
    show ?thesis
    proof (cases "CuTestGetStats_Group img h (Some g)")
      case (Inl e)
      then have "CuTestGetStats_Module_iter img h items i (Inr acc) = Inl e"
        using Some by (simp add: CuTestGetStats_Module_iter_def)
      moreover have "fold (CuTestGetStats_Module_iter img h items) rest (Inl e) = Inl e"
        by (induction rest) (simp_all add: CuTestGetStats_Module_iter_def)
      ultimately show ?thesis using Cons.prems(2) by simp
    next
      case (Inr sg)
      then have sg: "sg = stats_of h (cases_of_group img g)"
        by (rule CuTestGetStats_Group_eq)
      let ?acc = "wrap_stats (plus_stats acc sg)"
      have step: "CuTestGetStats_Module_iter img h items i (Inr acc) = Inr ?acc"
        using Some Inr by (simp add: CuTestGetStats_Module_iter_def stats_add_wrap)
      have "fold (CuTestGetStats_Module_iter img h items) rest (Inr ?acc) = Inr s"
        using Cons.prems(2) by (simp add: step)
      then have "s = wrap_stats (plus_stats ?acc
                   (stats_of h (concat (map (cases_of_group img) (List.map_filter items rest)))))"
        by (rule Cons.IH [OF wrap_wrap])
      then show ?thesis
        using Some by (simp add: sg wrap_plus_wrap plus_stats_assoc stats_of_append)
    qed
  qed
qed

lemma length_concat_le:
  "(\<And>x. x \<in> set xs \<Longrightarrow> length (f x) \<le> k) \<Longrightarrow> length (concat (map f xs)) \<le> length xs * k"
  by (induction xs) (simp_all add: add_mono)

lemma length_cases_of_module: "length (cases_of_module img m) \<le> 128 * 256"
proof (cases "cutest_module_t.ppItems (module_at img m)")
  case None
  then show ?thesis by (simp add: cases_of_module_def)
next
  case (Some items)
  have "length (concat (map (cases_of_group img) (List.map_filter items [0..<128])))
          \<le> length (List.map_filter items [0..<128]) * 256"
    by (rule length_concat_le) (rule length_cases_of_group)
  also have "\<dots> \<le> 128 * 256"
    using length_map_filter_upt [of items 128] by simp
  finally show ?thesis
    using Some by (simp add: cases_of_module_def CUTEST_MAX_NUM_GROUPS_def)
qed

lemma CuTestGetStats_Module_eq:
  assumes "CuTestGetStats_Module img h (Some m) = Inr s"
  shows "s = stats_of h (cases_of_module img m)"
proof -
  obtain items where items: "cutest_module_t.ppItems (module_at img m) = Some items"
    using assms by (auto simp: CuTestGetStats_Module_def split: option.splits)
  have "length (cases_of_module img m) < 2 ^ 32"
    using length_cases_of_module [of img m] by simp
  then have small: "wrap_stats (stats_of h (cases_of_module img m)) = stats_of h (cases_of_module img m)"
    by (rule stats_of_small)
  have "fold (CuTestGetStats_Module_iter img h items) [0..<CUTEST_MAX_NUM_GROUPS] (Inr stats_zero) = Inr s"
    using assms items by (simp add: CuTestGetStats_Module_def)
  from CuTestGetStats_Module_fold [OF wrap_zero this] show ?thesis
    using items small by (simp add: cases_of_module_def plus_stats_zero)
qed

lemma length_cases_of_item: "length (cases_of_item img it) \<le> 128 * 256"
proof -
  have "length (cases_of_group img a) \<le> 128 * 256" for a
    using length_cases_of_group [of img a] by simp
  then show ?thesis
    using length_cases_of_module [of img]
    by (simp add: cases_of_item_def split: option.splits cutest_type_t.splits)
qed

lemma CuTestGetStats_item_eq:
  assumes "CuTestGetStats_item img h it = Inr s"
  shows "s = stats_of h (cases_of_item img it)"
proof (cases "pItem it")
  case None
  then show ?thesis
    using assms by (simp add: CuTestGetStats_item_def cases_of_item_def stats_of_Nil)
next
  case (Some a)
  show ?thesis
  proof (cases "eType it")
    case EN_CUTEST_TYPE_CASE
    then show ?thesis
      using assms Some by (simp add: CuTestGetStats_item_def cases_of_item_def stats_of_single)
  next
    case EN_CUTEST_TYPE_GROUP
    then show ?thesis
      using assms Some CuTestGetStats_Group_eq [of img h a s]
      by (simp add: CuTestGetStats_item_def cases_of_item_def)
  next
    case EN_CUTEST_TYPE_MODULE
    then show ?thesis
      using assms Some CuTestGetStats_Module_eq [of img h a s]
      by (simp add: CuTestGetStats_item_def cases_of_item_def)
  qed
qed

lemma CuTestGetStats_fold:
  "wrap_stats acc = acc \<Longrightarrow>
   fold (CuTestGetStats_iter img h r) is (Inr acc) = Inr s \<Longrightarrow>
   s = wrap_stats (plus_stats acc
         (stats_of h (concat (map (\<lambda>i. cases_of_item img (asItems r i)) is))))"
proof (induction "is" arbitrary: acc)
  case Nil
  then show ?case by (simp add: stats_of_Nil plus_stats_zero)
next
  case (Cons i rest)
  show ?case
  proof (cases "CuTestGetStats_item img h (asItems r i)")
    case (Inl e)
    then have "CuTestGetStats_iter img h r i (Inr acc) = Inl e"
      by (simp add: CuTestGetStats_iter_def)
    moreover have "fold (CuTestGetStats_iter img h r) rest (Inl e) = Inl e"
      by (induction rest) (simp_all add: CuTestGetStats_iter_def)
    ultimately show ?thesis using Cons.prems(2) by simp
  next
    case (Inr si)
    then have si: "si = stats_of h (cases_of_item img (asItems r i))"
      by (rule CuTestGetStats_item_eq)
    let ?acc = "wrap_stats (plus_stats acc si)"
    have step: "CuTestGetStats_iter img h r i (Inr acc) = Inr ?acc"
      using Inr by (simp add: CuTestGetStats_iter_def stats_add_wrap)
    have "fold (CuTestGetStats_iter img h r) rest (Inr ?acc) = Inr s"
      using Cons.prems(2) by (simp add: step)
    then have "s = wrap_stats (plus_stats ?acc
                 (stats_of h (concat (map (\<lambda>i. cases_of_item img (asItems r i)) rest))))"
      by (rule Cons.IH [OF wrap_wrap])
    then show ?thesis
      by (simp add: si wrap_plus_wrap plus_stats_assoc stats_of_append)
  qed
qed

lemma length_cases_of_root:
  "ulCount r < CUTEST_MAX_NUM_ROOT_ITEM \<Longrightarrow> length (cases_of_root img r) \<le> 31 * (128 * 256)"
proof -
  assume "ulCount r < CUTEST_MAX_NUM_ROOT_ITEM"
  then have n: "ulCount r \<le> 31" by (simp add: CUTEST_MAX_NUM_ROOT_ITEM_def)
  have "length (cases_of_root img r) \<le> length [0..<ulCount r] * (128 * 256)"
    unfolding cases_of_root_def by (rule length_concat_le) (rule length_cases_of_item)
  also have "\<dots> \<le> 31 * (128 * 256)" using n by simp
  finally show ?thesis .
qed

lemma CuTestGetStats_eq:
  assumes "CuTestGetStats img h (Some r) = Inr s"
  shows "s = stats_of h (cases_of_root img r)"
proof -
  have n: "ulCount r < CUTEST_MAX_NUM_ROOT_ITEM"
    using assms by (simp add: CuTestGetStats_def split: if_splits)
  have "length (cases_of_root img r) < 2 ^ 32"
    using length_cases_of_root [OF n, of img] by simp
  then have small: "wrap_stats (stats_of h (cases_of_root img r)) = stats_of h (cases_of_root img r)"
    by (rule stats_of_small)
  have "fold (CuTestGetStats_iter img h r) [0..<ulCount r] (Inr stats_zero) = Inr s"
    using assms n by (simp add: CuTestGetStats_def)
  from CuTestGetStats_fold [OF wrap_zero this] show ?thesis
    using small by (simp add: cases_of_root_def plus_stats_zero)
qed

lemma fold_upt_cut:
  assumes "k \<le> n" and "\<And>i y. k \<le> i \<Longrightarrow> f i y = y"
  shows "fold f [0..<n] x = fold f [0..<k] x"
proof -
  have tail: "fold f js y = y" if "\<forall>j \<in> set js. k \<le> j" for js y
    using that by (induction js arbitrary: y) (simp_all add: assms(2))
  have "[0..<n] = [0..<k] @ [k..<n]"
    using assms(1) upt_add_eq_append [of 0 k "n - k"] by simp
  then show ?thesis by (simp add: tail)
qed

lemma map_filter_upt_cut:
  assumes "k \<le> n" and "\<And>i. k \<le> i \<Longrightarrow> f i = None"
  shows "List.map_filter f [0..<n] = List.map_filter f [0..<k]"
proof -
  have tail: "List.map_filter f js = []" if "\<forall>j \<in> set js. k \<le> j" for js
    using that by (induction js) (simp_all add: map_filter_simps assms(2))
  have "[0..<n] = [0..<k] @ [k..<n]"
    using assms(1) upt_add_eq_append [of 0 k "n - k"] by simp
  then show ?thesis by (simp add: map_filter_append tail)
qed

lemma upt_0_1: "[0..<1] = [0::nat]" by simp
lemma upt_0_2: "[0..<2] = [0::nat, 1]" by (simp add: upt_rec)
lemma upt_0_3: "[0..<3] = [0::nat, 1, 2]" by (simp add: upt_rec)

lemma main_image_simps:
  "group_at main_image a = TestMyModule_MyGroup"
  "module_at main_image a = TestMyModule"
  "fn_at main_image a = (if a = 2 then TEST_Module_MyGroup_Case2_TestFn
                         else TEST_Module_MyGroup_Case1_TestFn)"
  by (simp_all add: main_image_def)

lemma main_items:
  "cutest_group_t.ppItems TestMyModule_MyGroup
     = Some (\<lambda>i. if i = 0 then Some 1 else if i = 1 then Some 2 else None)"
  "cutest_module_t.ppItems TestMyModule = Some (\<lambda>i. if i = 0 then Some 1 else None)"
  by (simp_all add: TestMyModule_MyGroup_def TestMyModule_def)

lemma cases_of_main_group: "cases_of_group main_image g = [1, 2]"
proof -
  have "List.map_filter (\<lambda>i. if i = 0 then Some 1 else if i = 1 then Some 2 else None) [0..<256]
          = List.map_filter (\<lambda>i::nat. if i = 0 then Some 1 else if i = 1 then Some (2::nat) else None) [0..<2]"
    by (rule map_filter_upt_cut) simp_all
  also have "\<dots> = [1, 2]"
    by (simp add: upt_0_2 map_filter_simps)
  finally show ?thesis
    by (simp add: cases_of_group_def main_image_simps main_items CUTEST_MAX_NUM_CASES_def)
qed

lemma cases_of_main_module: "cases_of_module main_image m = [1, 2]"
proof -
  have "List.map_filter (\<lambda>i. if i = 0 then Some 1 else None) [0..<128]
          = List.map_filter (\<lambda>i::nat. if i = 0 then Some (1::nat) else None) [0..<1]"
    by (rule map_filter_upt_cut) simp_all
  also have "\<dots> = [1]"
    by (simp add: map_filter_simps)
  finally show ?thesis
    by (simp add: cases_of_module_def main_image_simps main_items CUTEST_MAX_NUM_GROUPS_def
        cases_of_main_group)
qed

lemma CuTestGetStats_Group_run:
  assumes "cutest_group_t.ppItems (group_at img g) = Some items"
  shows "CuTestGetStats_Group img h (Some g) = Inr (stats_of h (cases_of_group img g))"
proof -
  have "length (cases_of_group img g) < 2 ^ 32"
    using length_cases_of_group [of img g] by simp
  then have "wrap_stats (stats_of h (cases_of_group img g)) = stats_of h (cases_of_group img g)"
    by (rule stats_of_small)
  then show ?thesis
    using assms CuTestGetStats_Group_fold [OF wrap_zero, of h items "[0..<CUTEST_MAX_NUM_CASES]"]
    by (simp add: CuTestGetStats_Group_def cases_of_group_def plus_stats_zero)
qed

lemma main_group_stats: "CuTestGetStats_Group main_image h (Some g) = Inr (stats_of h [1, 2])"
  using CuTestGetStats_Group_run [of main_image g _ h]
  by (simp add: cases_of_main_group main_image_simps main_items)

lemma main_module_stats: "CuTestGetStats_Module main_image h (Some m) = Inr (stats_of h [1, 2])"
proof -
  let ?items = "\<lambda>i::nat. if i = 0 then Some (1::nat) else None"
  have "fold (CuTestGetStats_Module_iter main_image h ?items) [0..<128] (Inr stats_zero)
          = fold (CuTestGetStats_Module_iter main_image h ?items) [0..<1] (Inr stats_zero)"
    by (rule fold_upt_cut) (simp_all add: CuTestGetStats_Module_iter_def split: sum.splits)
  also have "\<dots> = Inr (stats_add stats_zero (stats_of h [1, 2]))"
    by (simp add: CuTestGetStats_Module_iter_def main_group_stats)
  also have "\<dots> = Inr (stats_of h [1, 2])"
    by (simp add: stats_add_def stats_zero_def stats_of_def ul_add_def)
  finally show ?thesis
    by (simp add: CuTestGetStats_Module_def CUTEST_MAX_NUM_GROUPS_def main_image_simps main_items)
qed

lemma main_root_stats: "CuTestGetStats main_image h (Some main_root) = Inr (stats_of h [1, 2])"
proof -
  have "CuTestGetStats_item main_image h (asItems main_root 0) = Inr (stats_of h [1, 2])"
    by (simp add: CuTestGetStats_item_def main_root_def main_module_stats)
  then have "fold (CuTestGetStats_iter main_image h main_root) [0..<1] (Inr stats_zero)
               = Inr (stats_add stats_zero (stats_of h [1, 2]))"
    by (simp add: CuTestGetStats_iter_def)
  also have "\<dots> = Inr (stats_of h [1, 2])"
    by (simp add: stats_add_def stats_zero_def stats_of_def ul_add_def)
  finally show ?thesis
    by (simp add: CuTestGetStats_def CUTEST_MAX_NUM_ROOT_ITEM_def main_root_def)
qed

lemma cases_of_main_root: "cases_of_root main_image main_root = [1, 2]"
  by (simp add: cases_of_root_def cases_of_item_def main_root_def cases_of_main_module)

lemma main_root_append:
  "CuTest_AppendRootItem (Some (BEGIN_TEST_RUN ''Unnamed Project'')) EN_CUTEST_TYPE_MODULE (Some 1)
     = Inr main_root"
  by (auto simp: CuTest_AppendRootItem_def BEGIN_TEST_RUN_def main_root_def
      CUTEST_MAX_NUM_ROOT_ITEM_def ul_add_def)

lemma stats_of_le:
  "ulPassed (stats_of h ps) + ulFailed (stats_of h ps) \<le> ulTotal (stats_of h ps)"
proof (induction ps)
  case Nil
  show ?case by (simp add: stats_of_def)
next
  case (Cons p ps)
  then show ?case by (cases "eResult (h p)") (simp_all add: stats_of_def)
qed

lemma stats_of_eq_iff:
  "ulPassed (stats_of h ps) + ulFailed (stats_of h ps) = ulTotal (stats_of h ps)
     \<longleftrightarrow> (\<forall>p \<in> set ps. eResult (h p) \<noteq> EN_CUTEST_RESULT_UNDEF)"
proof (induction ps)
  case Nil
  show ?case by (simp add: stats_of_def)
next
  case (Cons p ps)
  have le: "ulPassed (stats_of h ps) + ulFailed (stats_of h ps) \<le> ulTotal (stats_of h ps)"
    by (rule stats_of_le)
  show ?case
  proof (cases "eResult (h p)")
    case EN_CUTEST_RESULT_UNDEF
    then show ?thesis using le by (simp add: stats_of_def)
  next
    case EN_CUTEST_RESULT_PASS
    then show ?thesis using Cons.IH by (simp add: stats_of_def)
  next
    case EN_CUTEST_RESULT_FAIL
    then show ?thesis using Cons.IH by (simp add: stats_of_def)
  qed
qed


text \<open>
  Claim C9. Whenever the aggregator computes the statistics of a case, a group, a module
  or a run, \<open>ulPassed + ulFailed \<le> ulTotal\<close>, and the two sides are equal exactly when
  no case that it visited has the result \<open>EN_CUTEST_RESULT_UNDEF\<close>.
\<close>

theorem CuTestGetStats_passed_failed_total:
  "(CuTestGetStats_Case h (Some p) = Inr sc \<longrightarrow>
      ulPassed sc + ulFailed sc \<le> ulTotal sc \<and>
      (ulPassed sc + ulFailed sc = ulTotal sc \<longleftrightarrow> eResult (h p) \<noteq> EN_CUTEST_RESULT_UNDEF)) \<and>
   (CuTestGetStats_Group img h (Some g) = Inr sg \<longrightarrow>
      ulPassed sg + ulFailed sg \<le> ulTotal sg \<and>
      (ulPassed sg + ulFailed sg = ulTotal sg \<longleftrightarrow>
         (\<forall>q \<in> set (cases_of_group img g). eResult (h q) \<noteq> EN_CUTEST_RESULT_UNDEF))) \<and>
   (CuTestGetStats_Module img h (Some m) = Inr sm \<longrightarrow>
      ulPassed sm + ulFailed sm \<le> ulTotal sm \<and>
      (ulPassed sm + ulFailed sm = ulTotal sm \<longleftrightarrow>
         (\<forall>q \<in> set (cases_of_module img m). eResult (h q) \<noteq> EN_CUTEST_RESULT_UNDEF))) \<and>
   (CuTestGetStats img h (Some r) = Inr sr \<longrightarrow>
      ulPassed sr + ulFailed sr \<le> ulTotal sr \<and>
      (ulPassed sr + ulFailed sr = ulTotal sr \<longleftrightarrow>
         (\<forall>q \<in> set (cases_of_root img r). eResult (h q) \<noteq> EN_CUTEST_RESULT_UNDEF)))"
proof (intro conjI impI)
  assume "CuTestGetStats_Case h (Some p) = Inr sc"
  then have sc: "sc = stats_of h [p]" by (simp add: stats_of_single)
  show "ulPassed sc + ulFailed sc \<le> ulTotal sc" unfolding sc by (rule stats_of_le)
  show "ulPassed sc + ulFailed sc = ulTotal sc \<longleftrightarrow> eResult (h p) \<noteq> EN_CUTEST_RESULT_UNDEF"
    unfolding sc using stats_of_eq_iff [of h "[p]"] by simp
next
  assume "CuTestGetStats_Group img h (Some g) = Inr sg"
  then have sg: "sg = stats_of h (cases_of_group img g)" by (rule CuTestGetStats_Group_eq)
  show "ulPassed sg + ulFailed sg \<le> ulTotal sg" unfolding sg by (rule stats_of_le)
  show "ulPassed sg + ulFailed sg = ulTotal sg \<longleftrightarrow>
         (\<forall>q \<in> set (cases_of_group img g). eResult (h q) \<noteq> EN_CUTEST_RESULT_UNDEF)"
    unfolding sg by (rule stats_of_eq_iff)
next
  assume "CuTestGetStats_Module img h (Some m) = Inr sm"
  then have sm: "sm = stats_of h (cases_of_module img m)" by (rule CuTestGetStats_Module_eq)
  show "ulPassed sm + ulFailed sm \<le> ulTotal sm" unfolding sm by (rule stats_of_le)
  show "ulPassed sm + ulFailed sm = ulTotal sm \<longleftrightarrow>
         (\<forall>q \<in> set (cases_of_module img m). eResult (h q) \<noteq> EN_CUTEST_RESULT_UNDEF)"
    unfolding sm by (rule stats_of_eq_iff)
next
  assume "CuTestGetStats img h (Some r) = Inr sr"
  then have sr: "sr = stats_of h (cases_of_root img r)" by (rule CuTestGetStats_eq)
  show "ulPassed sr + ulFailed sr \<le> ulTotal sr" unfolding sr by (rule stats_of_le)
  show "ulPassed sr + ulFailed sr = ulTotal sr \<longleftrightarrow>
         (\<forall>q \<in> set (cases_of_root img r). eResult (h q) \<noteq> EN_CUTEST_RESULT_UNDEF)"
    unfolding sr by (rule stats_of_eq_iff)
qed

lemma one_passed_heap_stats:
  "stats_of one_passed_heap [1, 2] = \<lparr>ulTotal = 2, ulPassed = 1, ulFailed = 0\<rparr>"
  by (simp add: stats_of_def one_passed_heap_def main_heap_def TEST_CASE_def)

theorem CuTestGetStats_passed_failed_total_witness:
  "CuTestGetStats_Case one_passed_heap (Some 1) = Inr \<lparr>ulTotal = 1, ulPassed = 1, ulFailed = 0\<rparr> \<and>
   eResult (one_passed_heap 1) \<noteq> EN_CUTEST_RESULT_UNDEF \<and>
   CuTestGetStats_Group main_image one_passed_heap (Some 1)
     = Inr \<lparr>ulTotal = 2, ulPassed = 1, ulFailed = 0\<rparr> \<and>
   CuTestGetStats_Module main_image one_passed_heap (Some 1)
     = Inr \<lparr>ulTotal = 2, ulPassed = 1, ulFailed = 0\<rparr> \<and>
   CuTestGetStats main_image one_passed_heap (Some main_root)
     = Inr \<lparr>ulTotal = 2, ulPassed = 1, ulFailed = 0\<rparr> \<and>
   2 \<in> set (cases_of_root main_image main_root) \<and>
   eResult (one_passed_heap 2) = EN_CUTEST_RESULT_UNDEF"
  using CuTestGetStats_passed_failed_total
          [of one_passed_heap 1 "\<lparr>ulTotal = 1, ulPassed = 1, ulFailed = 0\<rparr>"
              main_image 1 "\<lparr>ulTotal = 2, ulPassed = 1, ulFailed = 0\<rparr>"
              1 "\<lparr>ulTotal = 2, ulPassed = 1, ulFailed = 0\<rparr>"
              main_root "\<lparr>ulTotal = 2, ulPassed = 1, ulFailed = 0\<rparr>"]
  by (simp add: main_group_stats main_module_stats main_root_stats one_passed_heap_stats
      stats_of_single cases_of_main_root)
     (simp add: stats_of_def one_passed_heap_def main_heap_def TEST_CASE_def)



text \<open>
  Claim C10. For a run without root elements the statistics are all zero,
  \<open>CuTest_GetRunResult\<close> returns \<open>EN_CUTEST_RESULT_PASS\<close> and \<open>GET_RUN_RESULT\<close> is
  \<open>EXIT_SUCCESS\<close>.
\<close>

theorem empty_run_passes:
  assumes "ulCount r = 0"
  shows "CuTestGetStats img h (Some r) = Inr \<lparr>ulTotal = 0, ulPassed = 0, ulFailed = 0\<rparr> \<and>
         CuTest_GetRunResult img h (Some r) = Inr EN_CUTEST_RESULT_PASS \<and>
         GET_RUN_RESULT img h r = Inr EXIT_SUCCESS"
proof -
  have "CuTestGetStats img h (Some r) = Inr \<lparr>ulTotal = 0, ulPassed = 0, ulFailed = 0\<rparr>"
    using assms by (simp add: CuTestGetStats_def CUTEST_MAX_NUM_ROOT_ITEM_def stats_zero_def)
  then show ?thesis
    by (simp add: CuTest_GetRunResult_def GET_RUN_RESULT_def)
qed

theorem empty_run_passes_witness:
  "ulCount (BEGIN_TEST_RUN ''Unnamed Project'') = 0 \<and>
   CuTestGetStats main_image main_heap (Some (BEGIN_TEST_RUN ''Unnamed Project''))
     = Inr \<lparr>ulTotal = 0, ulPassed = 0, ulFailed = 0\<rparr> \<and>
   CuTest_GetRunResult main_image main_heap (Some (BEGIN_TEST_RUN ''Unnamed Project''))
     = Inr EN_CUTEST_RESULT_PASS \<and>
   GET_RUN_RESULT main_image main_heap (BEGIN_TEST_RUN ''Unnamed Project'') = Inr 0"
proof -
  have zero: "ulCount (BEGIN_TEST_RUN ''Unnamed Project'') = 0"
    by (simp add: BEGIN_TEST_RUN_def)
  from empty_run_passes [OF zero, of main_image main_heap] show ?thesis
    using zero by (simp add: EXIT_SUCCESS_def)
qed

section \<open>Properties of the case runner and of the assertions\<close>

lemma main_heap_fn: "pfvTestFn (main_heap a) = Some (if a = 2 then 2 else 1)"
  by (simp add: main_heap_def TEST_CASE_def)

lemma CuTest_EvalAssert_true:
  "CuTest_EvalAssert (Some p) (Some file) line True msg h
     = Returned (h(p := (h p)\<lparr>eResult := EN_CUTEST_RESULT_PASS\<rparr>))"
  by (simp add: CuTest_EvalAssert_def CuTestAssertPassed_def)

lemma CuTest_EvalAssert_false:
  "CuTest_EvalAssert (Some p) (Some file) line False msg h
     = Jumped p (h(p := (h p)\<lparr>acMessage :=
                                 take 255 (case msg of None \<Rightarrow> ''assert failed.''
                                           | Some m \<Rightarrow> if m \<noteq> [] then m else ''assert failed.''),
                               pszMsgFile := file, ulMsgLine := line,
                               eResult := EN_CUTEST_RESULT_FAIL\<rparr>))"
  by (simp add: CuTest_EvalAssert_def CuTestAssertFailed_def snprintf_acMessage_def
      CUTEST_MAX_LEN_MESSAGE_def Let_def)

text \<open>
  Claim C7. \<open>CuTest_RunTestCase\<close> first sets the result of the case to
  \<open>EN_CUTEST_RESULT_UNDEF\<close> and empties its message, and then calls the test function
  on that state: the run is what the test function makes of the reset case (followed
  by the printed lines), so it does not depend on the result and message that the case
  had before, and a test function that returns without touching its case leaves the
  result \<open>EN_CUTEST_RESULT_UNDEF\<close> and the message empty.
\<close>

theorem CuTest_RunTestCase_resets:
  assumes "pfvTestFn (cases w p) = Some f"
  shows "CuTest_RunTestCase img (Some p) w
           = (case fn_at img f (Some p)
                     ((cases w)(p := (cases w p)\<lparr>eResult := EN_CUTEST_RESULT_UNDEF,
                                                    acMessage := []\<rparr>)) of
                Returned h' \<Rightarrow>
                  Inr (w\<lparr>cases := h', stdout := stdout w @ CuTest_RunTestCase_print (h' p)\<rparr>)
              | Jumped q h' \<Rightarrow>
                  if q = p
                  then Inr (w\<lparr>cases := h', stdout := stdout w @ CuTest_RunTestCase_print (h' p)\<rparr>)
                  else Inl Stale_Jump
              | Faulted e \<Rightarrow> Inl e) \<and>
         CuTest_RunTestCase img (Some p)
             (w\<lparr>cases := (cases w)(p := (cases w p)\<lparr>eResult := res, acMessage := msg\<rparr>)\<rparr>)
           = CuTest_RunTestCase img (Some p) w \<and>
         (\<forall>h'. fn_at img f (Some p)
                  ((cases w)(p := (cases w p)\<lparr>eResult := EN_CUTEST_RESULT_UNDEF,
                                                 acMessage := []\<rparr>)) = Returned h' \<and>
               h' p = (cases w p)\<lparr>eResult := EN_CUTEST_RESULT_UNDEF, acMessage := []\<rparr> \<longrightarrow>
            (\<exists>w'. CuTest_RunTestCase img (Some p) w = Inr w' \<and> cases w' = h' \<and>
                   eResult (cases w' p) = EN_CUTEST_RESULT_UNDEF \<and> acMessage (cases w' p) = []))"
proof (intro conjI allI impI)
  show "CuTest_RunTestCase img (Some p) w
           = (case fn_at img f (Some p)
                     ((cases w)(p := (cases w p)\<lparr>eResult := EN_CUTEST_RESULT_UNDEF,
                                                    acMessage := []\<rparr>)) of
                Returned h' \<Rightarrow>
                  Inr (w\<lparr>cases := h', stdout := stdout w @ CuTest_RunTestCase_print (h' p)\<rparr>)
              | Jumped q h' \<Rightarrow>
                  if q = p
                  then Inr (w\<lparr>cases := h', stdout := stdout w @ CuTest_RunTestCase_print (h' p)\<rparr>)
                  else Inl Stale_Jump
              | Faulted e \<Rightarrow> Inl e)"
    using assms
    by (simp add: CuTest_RunTestCase_def CuTest_RunTestCase_call_def split: outcome.splits)
next
  show "CuTest_RunTestCase img (Some p)
             (w\<lparr>cases := (cases w)(p := (cases w p)\<lparr>eResult := res, acMessage := msg\<rparr>)\<rparr>)
           = CuTest_RunTestCase img (Some p) w"
    using assms by (simp add: CuTest_RunTestCase_def split: sum.splits)
next
  fix h'
  assume "fn_at img f (Some p)
            ((cases w)(p := (cases w p)\<lparr>eResult := EN_CUTEST_RESULT_UNDEF,
                                           acMessage := []\<rparr>)) = Returned h' \<and>
          h' p = (cases w p)\<lparr>eResult := EN_CUTEST_RESULT_UNDEF, acMessage := []\<rparr>"
  then have "CuTest_RunTestCase img (Some p) w
               = Inr (w\<lparr>cases := h', stdout := stdout w @ CuTest_RunTestCase_print (h' p)\<rparr>)"
    and "eResult (h' p) = EN_CUTEST_RESULT_UNDEF" and "acMessage (h' p) = []"
    using assms by (simp_all add: CuTest_RunTestCase_def CuTest_RunTestCase_call_def)
  then show "\<exists>w'. CuTest_RunTestCase img (Some p) w = Inr w' \<and> cases w' = h' \<and>
                  eResult (cases w' p) = EN_CUTEST_RESULT_UNDEF \<and> acMessage (cases w' p) = []"
    by simp
qed

text \<open>
  The witness runs the probing test function on a case that had failed with a
  message: the probe passes, so it was called, and called after the reset (called on
  the case as it was, it fails). The empty test function leaves the case undefined.
\<close>

theorem CuTest_RunTestCase_resets_witness:
  "pfvTestFn (cases (main_world\<lparr>cases := failed_heap\<rparr>) 1) = Some 1 \<and>
   eResult (failed_heap 1) = EN_CUTEST_RESULT_FAIL \<and>
   acMessage (failed_heap 1) = ''assert failed.'' \<and>
   map_sum id (\<lambda>w'. eResult (cases w' 1))
       (CuTest_RunTestCase probe_image (Some 1) (main_world\<lparr>cases := failed_heap\<rparr>))
     = Inr EN_CUTEST_RESULT_PASS \<and>
   probe_TestFn (Some 1) failed_heap
     = Jumped 1 (failed_heap(1 := (failed_heap 1)\<lparr>acMessage := ''assert failed.'',
                                                  pszMsgFile := ''test/main.c'', ulMsgLine := 40,
                                                  eResult := EN_CUTEST_RESULT_FAIL\<rparr>)) \<and>
   fn_at empty_image 1 (Some 1)
       (failed_heap(1 := (failed_heap 1)\<lparr>eResult := EN_CUTEST_RESULT_UNDEF, acMessage := []\<rparr>))
     = Returned (failed_heap(1 := (failed_heap 1)\<lparr>eResult := EN_CUTEST_RESULT_UNDEF,
                                                   acMessage := []\<rparr>)) \<and>
   map_sum id (\<lambda>w'. (eResult (cases w' 1), acMessage (cases w' 1)))
       (CuTest_RunTestCase empty_image (Some 1) (main_world\<lparr>cases := failed_heap\<rparr>))
     = Inr (EN_CUTEST_RESULT_UNDEF, [])"
proof -
  let ?w = "main_world\<lparr>cases := failed_heap\<rparr>"
  let ?h = "failed_heap(1 := (failed_heap 1)\<lparr>eResult := EN_CUTEST_RESULT_UNDEF, acMessage := []\<rparr>)"
  have fn: "pfvTestFn (cases ?w 1) = Some 1"
    by (simp add: failed_heap_def main_heap_fn)
  have before: "eResult (failed_heap 1) = EN_CUTEST_RESULT_FAIL"
    "acMessage (failed_heap 1) = ''assert failed.''"
    by (simp_all add: failed_heap_def)
  have probe: "fn_at probe_image 1 (Some 1) ?h
                 = Returned (?h(1 := (?h 1)\<lparr>eResult := EN_CUTEST_RESULT_PASS\<rparr>))"
    by (simp add: probe_image_def probe_TestFn_def CuTest_EvalAssert_true)
  have unreset: "probe_TestFn (Some 1) failed_heap
     = Jumped 1 (failed_heap(1 := (failed_heap 1)\<lparr>acMessage := ''assert failed.'',
                                                  pszMsgFile := ''test/main.c'', ulMsgLine := 40,
                                                  eResult := EN_CUTEST_RESULT_FAIL\<rparr>))"
    using before by (simp add: probe_TestFn_def CuTest_EvalAssert_false)
  have empty: "fn_at empty_image 1 (Some 1) ?h = Returned ?h"
    by (simp add: empty_image_def empty_TestFn_def)
  have cases_w: "cases ?w = failed_heap"
    by simp
  note run = CuTest_RunTestCase_resets [OF fn, where img = probe_image, unfolded cases_w]
  note idle = CuTest_RunTestCase_resets [OF fn, where img = empty_image, unfolded cases_w]
  have "CuTest_RunTestCase probe_image (Some 1) ?w
          = Inr (?w\<lparr>cases := ?h(1 := (?h 1)\<lparr>eResult := EN_CUTEST_RESULT_PASS\<rparr>),
                    stdout := stdout ?w @ CuTest_RunTestCase_print
                       ((?h(1 := (?h 1)\<lparr>eResult := EN_CUTEST_RESULT_PASS\<rparr>)) 1)\<rparr>)"
    using run [THEN conjunct1] by (simp only: probe outcome.case)
  then have passed: "map_sum id (\<lambda>w'. eResult (cases w' 1))
                       (CuTest_RunTestCase probe_image (Some 1) ?w) = Inr EN_CUTEST_RESULT_PASS"
    by simp
  have "CuTest_RunTestCase empty_image (Some 1) ?w
          = Inr (?w\<lparr>cases := ?h, stdout := stdout ?w @ CuTest_RunTestCase_print (?h 1)\<rparr>)"
    using idle [THEN conjunct1] by (simp only: empty outcome.case)
  then have undefined: "map_sum id (\<lambda>w'. (eResult (cases w' 1), acMessage (cases w' 1)))
                          (CuTest_RunTestCase empty_image (Some 1) ?w)
                        = Inr (EN_CUTEST_RESULT_UNDEF, [])"
    by simp
  show ?thesis
    using fn before passed unreset empty undefined by blast
qed

text \<open>
  The claim C3 as it is written fails on a message of more than 255 characters: the
  buffer \<open>acMessage\<close> keeps the first 255 of the 256 characters given here.
\<close>

theorem CuTest_EvalAssert_verbatim_counterexample:
  "CuTest_EvalAssert (Some 2) (Some ''test/main.c'') 28 False (Some (replicate 256 CHR ''a''))
       main_heap
     = Jumped 2 (main_heap(2 := (main_heap 2)\<lparr>acMessage := replicate 255 CHR ''a'',
                                               pszMsgFile := ''test/main.c'', ulMsgLine := 28,
                                               eResult := EN_CUTEST_RESULT_FAIL\<rparr>)) \<and>
   replicate 255 CHR ''a'' \<noteq> replicate 256 CHR ''a''"
proof
  show "CuTest_EvalAssert (Some 2) (Some ''test/main.c'') 28 False (Some (replicate 256 CHR ''a''))
          main_heap
        = Jumped 2 (main_heap(2 := (main_heap 2)\<lparr>acMessage := replicate 255 CHR ''a'',
                                                  pszMsgFile := ''test/main.c'', ulMsgLine := 28,
                                                  eResult := EN_CUTEST_RESULT_FAIL\<rparr>))"
    by (simp add: CuTest_EvalAssert_false)
  have "length (replicate 255 CHR ''a'') \<noteq> length (replicate 256 CHR ''a'')"
    by simp
  then show "replicate 255 CHR ''a'' \<noteq> replicate 256 CHR ''a''"
    by metis
qed

text \<open>
  Claim C3, amended. A true condition sets the result to \<open>EN_CUTEST_RESULT_PASS\<close> and
  the call returns. A false condition sets the result to \<open>EN_CUTEST_RESULT_FAIL\<close>,
  records the file and line of the assertion, stores the first 255 characters of the
  supplied message when it is not empty (the whole message when it has at most 255
  characters) and the text \<open>assert failed.\<close> when it is null or empty, and leaves by
  the jump: whatever follows the assertion in the test function is not executed, and
  the case runner ends with the result, message and location of the failure.
\<close>

theorem CuTest_EvalAssert_outcome:
  "CuTest_EvalAssert (Some p) (Some file) line True msg h
     = Returned (h(p := (h p)\<lparr>eResult := EN_CUTEST_RESULT_PASS\<rparr>)) \<and>
   (\<exists>h'. CuTest_EvalAssert (Some p) (Some file) line False msg h = Jumped p h' \<and>
      eResult (h' p) = EN_CUTEST_RESULT_FAIL \<and>
      pszMsgFile (h' p) = file \<and> ulMsgLine (h' p) = line \<and>
      acMessage (h' p) = (case msg of None \<Rightarrow> ''assert failed.''
                          | Some m \<Rightarrow> if m = [] then ''assert failed.'' else take 255 m) \<and>
      (\<forall>m. msg = Some m \<and> m \<noteq> [] \<and> length m \<le> 255 \<longrightarrow> acMessage (h' p) = m) \<and>
      (\<forall>rest. seq (CuTest_EvalAssert (Some p) (Some file) line False msg) rest h = Jumped p h') \<and>
      (\<forall>f rest. pfvTestFn (h p) = Some f \<and>
           fn_at img f = (\<lambda>tc. seq (CuTest_EvalAssert tc (Some file) line False msg) (rest tc)) \<longrightarrow>
           (\<exists>w'. CuTest_RunTestCase img (Some p) \<lparr>cases = h, stdout = out, files = fs\<rparr> = Inr w' \<and>
                  cases w' = h')))"
proof
  show "CuTest_EvalAssert (Some p) (Some file) line True msg h
          = Returned (h(p := (h p)\<lparr>eResult := EN_CUTEST_RESULT_PASS\<rparr>))"
    by (rule CuTest_EvalAssert_true)
next
  let ?text = "case msg of None \<Rightarrow> ''assert failed.''
               | Some m \<Rightarrow> if m \<noteq> [] then m else ''assert failed.''"
  let ?h' = "h(p := (h p)\<lparr>acMessage := take 255 ?text, pszMsgFile := file, ulMsgLine := line,
                           eResult := EN_CUTEST_RESULT_FAIL\<rparr>)"
  have jump: "CuTest_EvalAssert (Some p) (Some file) line False msg h = Jumped p ?h'"
    by (rule CuTest_EvalAssert_false)
  have message: "acMessage (?h' p) = (case msg of None \<Rightarrow> ''assert failed.''
                                      | Some m \<Rightarrow> if m = [] then ''assert failed.'' else take 255 m)"
    by (simp split: option.splits)
  have run: "\<exists>w'. CuTest_RunTestCase img (Some p) \<lparr>cases = h, stdout = out, files = fs\<rparr> = Inr w' \<and>
                  cases w' = ?h'"
    if "pfvTestFn (h p) = Some f"
       "fn_at img f = (\<lambda>tc. seq (CuTest_EvalAssert tc (Some file) line False msg) (rest tc))"
    for f rest
    using that
    by (simp add: CuTest_RunTestCase_def CuTest_RunTestCase_call_def seq_def
        CuTest_EvalAssert_false)
  show "\<exists>h'. CuTest_EvalAssert (Some p) (Some file) line False msg h = Jumped p h' \<and>
      eResult (h' p) = EN_CUTEST_RESULT_FAIL \<and>
      pszMsgFile (h' p) = file \<and> ulMsgLine (h' p) = line \<and>
      acMessage (h' p) = (case msg of None \<Rightarrow> ''assert failed.''
                          | Some m \<Rightarrow> if m = [] then ''assert failed.'' else take 255 m) \<and>
      (\<forall>m. msg = Some m \<and> m \<noteq> [] \<and> length m \<le> 255 \<longrightarrow> acMessage (h' p) = m) \<and>
      (\<forall>rest. seq (CuTest_EvalAssert (Some p) (Some file) line False msg) rest h = Jumped p h') \<and>
      (\<forall>f rest. pfvTestFn (h p) = Some f \<and>
           fn_at img f = (\<lambda>tc. seq (CuTest_EvalAssert tc (Some file) line False msg) (rest tc)) \<longrightarrow>
           (\<exists>w'. CuTest_RunTestCase img (Some p) \<lparr>cases = h, stdout = out, files = fs\<rparr> = Inr w' \<and>
                  cases w' = h'))"
  proof (intro exI [of _ ?h'] conjI allI impI)
    show "CuTest_EvalAssert (Some p) (Some file) line False msg h = Jumped p ?h'" by (rule jump)
    show "eResult (?h' p) = EN_CUTEST_RESULT_FAIL" by simp
    show "pszMsgFile (?h' p) = file" by simp
    show "ulMsgLine (?h' p) = line" by simp
    show "acMessage (?h' p) = (case msg of None \<Rightarrow> ''assert failed.''
                               | Some m \<Rightarrow> if m = [] then ''assert failed.'' else take 255 m)"
      by (rule message)
    show "acMessage (?h' p) = m" if "msg = Some m \<and> m \<noteq> [] \<and> length m \<le> 255" for m
      using that by simp
    show "seq (CuTest_EvalAssert (Some p) (Some file) line False msg) rest h = Jumped p ?h'" for rest
      by (simp add: seq_def jump)
    show "\<exists>w'. CuTest_RunTestCase img (Some p) \<lparr>cases = h, stdout = out, files = fs\<rparr> = Inr w' \<and>
               cases w' = ?h'"
      if "pfvTestFn (h p) = Some f \<and>
          fn_at img f = (\<lambda>tc. seq (CuTest_EvalAssert tc (Some file) line False msg) (rest tc))"
      for f rest
      using that run [of f rest] by blast
  qed
qed

theorem CuTest_EvalAssert_outcome_witness:
  "pfvTestFn (main_heap 1) = Some 1 \<and>
   fn_at fail_then_pass_image 1
     = (\<lambda>tc. seq (CuTest_EvalAssert tc (Some ''test/main.c'') 28 False (Some ''always fails''))
                 (CuTest_EvalAssert tc (Some ''test/main.c'') 29 True None)) \<and>
   length ''always fails'' \<le> 255 \<and>
   (\<exists>w'. CuTest_RunTestCase fail_then_pass_image (Some 1)
             \<lparr>cases = main_heap, stdout = [], files = (\<lambda>path. None)\<rparr> = Inr w' \<and>
          eResult (cases w' 1) = EN_CUTEST_RESULT_FAIL \<and>
          acMessage (cases w' 1) = ''always fails'' \<and>
          pszMsgFile (cases w' 1) = ''test/main.c'' \<and> ulMsgLine (cases w' 1) = 28)"
proof -
  have fn: "pfvTestFn (main_heap 1) = Some 1"
    by (simp add: main_heap_fn)
  have body: "fn_at fail_then_pass_image 1
     = (\<lambda>tc. seq (CuTest_EvalAssert tc (Some ''test/main.c'') 28 False (Some ''always fails''))
                 (CuTest_EvalAssert tc (Some ''test/main.c'') 29 True None))"
    by (rule ext) (simp add: fail_then_pass_image_def fail_then_pass_TestFn_def)
  from CuTest_EvalAssert_outcome
         [of 1 "''test/main.c''" 28 "Some ''always fails''" main_heap fail_then_pass_image
             "[]" "\<lambda>path. None"]
  obtain h' where h':
    "eResult (h' 1) = EN_CUTEST_RESULT_FAIL" "pszMsgFile (h' 1) = ''test/main.c''"
    "ulMsgLine (h' 1) = 28"
    "\<forall>m. Some ''always fails'' = Some m \<and> m \<noteq> [] \<and> length m \<le> 255 \<longrightarrow> acMessage (h' 1) = m"
    "\<forall>f rest. pfvTestFn (main_heap 1) = Some f \<and>
        fn_at fail_then_pass_image f
          = (\<lambda>tc. seq (CuTest_EvalAssert tc (Some ''test/main.c'') 28 False (Some ''always fails''))
                      (rest tc)) \<longrightarrow>
        (\<exists>w'. CuTest_RunTestCase fail_then_pass_image (Some 1)
                  \<lparr>cases = main_heap, stdout = [], files = (\<lambda>path. None)\<rparr> = Inr w' \<and>
               cases w' = h')"
    by blast
  have msg: "acMessage (h' 1) = ''always fails''"
    using h'(4) by simp
  obtain w' where "CuTest_RunTestCase fail_then_pass_image (Some 1)
                     \<lparr>cases = main_heap, stdout = [], files = (\<lambda>path. None)\<rparr> = Inr w'"
                  "cases w' = h'"
    using h'(5) [rule_format, of 1 "\<lambda>tc. CuTest_EvalAssert tc (Some ''test/main.c'') 29 True None"]
      fn body by blast
  then show ?thesis
    using fn body h'(1,2,3) msg by auto
qed

lemma dec_digit: "n < 10 \<Longrightarrow> dec n = [''0123456789'' ! n]"
  by (simp add: dec.simps)

lemma dec_more: "\<not> n < 10 \<Longrightarrow> dec n = dec (n div 10) @ [''0123456789'' ! (n mod 10)]"
  by (subst dec.simps) simp

lemma dec_small: "dec 21 = ''21''" "dec 26 = ''26''" "dec 28 = ''28''"
  by (simp_all add: dec_more dec_digit)

lemma printf_ld_small: "printf_ld 21 = ''21''" "printf_ld 26 = ''26''" "printf_ld 28 = ''28''"
  by (simp_all add: printf_ld_def printf_d_def dec_small)

text \<open>
  Claim C4 at the failing case of the demo program. The two format strings of the
  failed branch end in a newline and a space, so the second line begins with a space
  and a space is left in front of whatever is printed next.
\<close>

theorem CuTest_RunTestCase_failed_output:
  "map_sum id stdout (CuTest_RunTestCase main_image (Some 2) main_world)
     = Inr (''test/main.c:26:0: error: TEST_Module_MyGroup_Case2 failed.\<newline>''
            @ '' test/main.c:28:0: error: always fails\<newline>''
            @ '' '')"
  by (simp add: CuTest_RunTestCase_def CuTest_RunTestCase_call_def main_world_def main_heap_fn
      main_image_simps TEST_Module_MyGroup_Case2_TestFn_def CuTest_EvalAssert_false
      CuTest_RunTestCase_print_def)
     (simp add: main_heap_def TEST_CASE_def printf_ld_small)

section \<open>Properties of the byte-buffer assertion\<close>

lemma length_dec: "0 < k \<Longrightarrow> n < 10 ^ k \<Longrightarrow> length (dec n) \<le> k"
proof (induction k arbitrary: n)
  case 0
  then show ?case by simp
next
  case (Suc k)
  show ?case
  proof (cases "n < 10")
    case True
    then show ?thesis by (simp add: dec_digit)
  next
    case False
    then have "0 < k" using Suc.prems(2) by (cases k) simp_all
    moreover have "n div 10 < 10 ^ k" using Suc.prems(2) by (simp add: less_mult_imp_div_less)
    ultimately have "length (dec (n div 10)) \<le> k" by (rule Suc.IH)
    then show ?thesis using False by (simp add: dec_more)
  qed
qed

lemma length_printf_d: "length (printf_d n) \<le> 11"
proof -
  have "length (dec m) \<le> 10" if "m \<le> 2 ^ 32" for m :: nat
    using length_dec [of 10 m] that by simp
  then have "length (dec (n mod 2 ^ 32)) \<le> 10" "length (dec (2 ^ 32 - n mod 2 ^ 32)) \<le> 10"
    by simp_all
  then show ?thesis
    by (simp add: printf_d_def)
qed

lemma printf_d_dec: "n < 2 ^ 31 \<Longrightarrow> printf_d n = dec n"
  by (simp add: printf_d_def)

lemma CuTest_EvalAssertMemEquals_loop_equal:
  "\<forall>i \<in> set is. expected i = actual i \<Longrightarrow>
   CuTest_EvalAssertMemEquals_loop p file line expected (Some actual) is h
     = CuTestAssertPassed (Some p) h"
  by (induction "is") simp_all

lemma CuTest_EvalAssertMemEquals_loop_mismatch:
  assumes "\<forall>i \<in> set is. expected i = actual i" and "expected k \<noteq> actual k"
  shows "CuTest_EvalAssertMemEquals_loop p file line expected (Some actual) (is @ k # rest) h
     = Jumped p (h(p := (h p)\<lparr>acMessage :=
                       ''mismatch at offset <'' @ printf_d k @ ''>: expected <0x''
                       @ printf_02X (expected k) @ ''>, but was <0x''
                       @ printf_02X (actual k) @ ''>'',
                     pszMsgFile := file, ulMsgLine := line,
                     eResult := EN_CUTEST_RESULT_FAIL\<rparr>))"
  using assms(1)
proof (induction "is")
  case Nil
  let ?msg = "''mismatch at offset <'' @ printf_d k @ ''>: expected <0x''
                @ printf_02X (expected k) @ ''>, but was <0x''
                @ printf_02X (actual k) @ ''>''"
  have "length ?msg \<le> 255"
    using length_printf_d [of k] by (simp add: printf_02X_def)
  then have keep: "snprintf_acMessage ?msg = ?msg"
    unfolding snprintf_acMessage_def CUTEST_MAX_LEN_MESSAGE_def by simp
  have "CuTest_EvalAssertMemEquals_loop p file line expected (Some actual) (k # rest) h
          = CuTestAssertFailed (Some p)
              (h(p := (h p)\<lparr>acMessage := snprintf_acMessage ?msg,
                              pszMsgFile := file, ulMsgLine := line\<rparr>))"
    using assms(2) by (simp add: Let_def del: append.simps)
  also have "\<dots> = Jumped p (h(p := (h p)\<lparr>acMessage := ?msg, pszMsgFile := file,
                                          ulMsgLine := line,
                                          eResult := EN_CUTEST_RESULT_FAIL\<rparr>))"
    unfolding keep by (simp add: CuTestAssertFailed_def del: append.simps)
  finally show ?case by (simp only: append_Nil)
next
  case (Cons i "is")
  then show ?case by simp
qed

lemma upt_split_at: "k < n \<Longrightarrow> [0..<n] = [0..<k] @ k # [Suc k..<n]"
  using upt_add_eq_append [of 0 k "n - k"] by (simp add: upt_conv_Cons)

lemma CuTest_EvalAssertMemEquals_equal:
  assumes "\<forall>i<N. expected i = actual i"
  shows "CuTest_EvalAssertMemEquals (Some p) (Some file) line (Some expected) (Some actual) N h
           = Returned (h(p := (h p)\<lparr>eResult := EN_CUTEST_RESULT_PASS\<rparr>))"
  using assms
  by (simp add: CuTest_EvalAssertMemEquals_def CuTest_EvalAssertMemEquals_loop_equal
      CuTestAssertPassed_def)

lemma CuTest_EvalAssertMemEquals_mismatch:
  assumes "k < N" and "expected k \<noteq> actual k" and "\<forall>i<k. expected i = actual i"
  shows "CuTest_EvalAssertMemEquals (Some p) (Some file) line (Some expected) (Some actual) N h
           = Jumped p (h(p := (h p)\<lparr>acMessage :=
                       ''mismatch at offset <'' @ printf_d k @ ''>: expected <0x''
                       @ printf_02X (expected k) @ ''>, but was <0x''
                       @ printf_02X (actual k) @ ''>'',
                     pszMsgFile := file, ulMsgLine := line,
                     eResult := EN_CUTEST_RESULT_FAIL\<rparr>))"
proof -
  have "\<forall>i \<in> set [0..<k]. expected i = actual i"
    using assms(3) by simp
  from CuTest_EvalAssertMemEquals_loop_mismatch [OF this assms(2)] show ?thesis
    by (simp add: CuTest_EvalAssertMemEquals_def upt_split_at [OF assms(1)])
qed

text \<open>
  What the assertion does on two buffers of any length \<open>N\<close>: when all \<open>N\<close> bytes agree
  the result becomes \<open>EN_CUTEST_RESULT_PASS\<close> and the call returns; when \<open>k\<close> is the
  first offset at which they differ, the result becomes \<open>EN_CUTEST_RESULT_FAIL\<close>, the
  location is recorded, and the message gives the offset as \<open>%d\<close> prints it (the decimal
  numeral of \<open>k\<close> only below \<open>2 ^ 31\<close>) and the two bytes at \<open>k\<close> in hexadecimal;
  buffers that agree with these up to offset \<open>k\<close> give the same outcome.
\<close>

lemma CuTest_EvalAssertMemEquals_outcome:
  "((\<forall>i<N. expected i = actual i) \<longrightarrow>
      CuTest_EvalAssertMemEquals (Some p) (Some file) line (Some expected) (Some actual) N h
        = Returned (h(p := (h p)\<lparr>eResult := EN_CUTEST_RESULT_PASS\<rparr>))) \<and>
   (k < N \<and> expected k \<noteq> actual k \<and> (\<forall>i<k. expected i = actual i) \<longrightarrow>
      CuTest_EvalAssertMemEquals (Some p) (Some file) line (Some expected) (Some actual) N h
        = Jumped p (h(p := (h p)\<lparr>acMessage :=
                       ''mismatch at offset <'' @ printf_d k @ ''>: expected <0x''
                       @ printf_02X (expected k) @ ''>, but was <0x''
                       @ printf_02X (actual k) @ ''>'',
                     pszMsgFile := file, ulMsgLine := line,
                     eResult := EN_CUTEST_RESULT_FAIL\<rparr>)) \<and>
      (k < 2 ^ 31 \<longrightarrow> printf_d k = dec k) \<and>
      (\<forall>expected' actual'.
         (\<forall>i\<le>k. expected' i = expected i \<and> actual' i = actual i) \<longrightarrow>
         CuTest_EvalAssertMemEquals (Some p) (Some file) line (Some expected') (Some actual') N h
           = CuTest_EvalAssertMemEquals (Some p) (Some file) line (Some expected) (Some actual)
               N h))"
proof (intro conjI impI allI)
  assume "\<forall>i<N. expected i = actual i"
  then show "CuTest_EvalAssertMemEquals (Some p) (Some file) line (Some expected) (Some actual) N h
               = Returned (h(p := (h p)\<lparr>eResult := EN_CUTEST_RESULT_PASS\<rparr>))"
    by (rule CuTest_EvalAssertMemEquals_equal)
next
  assume k: "k < N \<and> expected k \<noteq> actual k \<and> (\<forall>i<k. expected i = actual i)"
  then show "CuTest_EvalAssertMemEquals (Some p) (Some file) line (Some expected) (Some actual) N h
        = Jumped p (h(p := (h p)\<lparr>acMessage :=
                       ''mismatch at offset <'' @ printf_d k @ ''>: expected <0x''
                       @ printf_02X (expected k) @ ''>, but was <0x''
                       @ printf_02X (actual k) @ ''>'',
                     pszMsgFile := file, ulMsgLine := line,
                     eResult := EN_CUTEST_RESULT_FAIL\<rparr>))"
    by (intro CuTest_EvalAssertMemEquals_mismatch) simp_all
next
  assume "k < 2 ^ 31"
  then show "printf_d k = dec k" by (rule printf_d_dec)
next
  fix expected' actual'
  assume k: "k < N \<and> expected k \<noteq> actual k \<and> (\<forall>i<k. expected i = actual i)"
    and same: "\<forall>i\<le>k. expected' i = expected i \<and> actual' i = actual i"
  have "k < N" "expected' k \<noteq> actual' k" "\<forall>i<k. expected' i = actual' i"
    using k same by simp_all
  then have "CuTest_EvalAssertMemEquals (Some p) (Some file) line (Some expected') (Some actual') N h
        = Jumped p (h(p := (h p)\<lparr>acMessage :=
                       ''mismatch at offset <'' @ printf_d k @ ''>: expected <0x''
                       @ printf_02X (expected' k) @ ''>, but was <0x''
                       @ printf_02X (actual' k) @ ''>'',
                     pszMsgFile := file, ulMsgLine := line,
                     eResult := EN_CUTEST_RESULT_FAIL\<rparr>))"
    by (rule CuTest_EvalAssertMemEquals_mismatch)
  then show "CuTest_EvalAssertMemEquals (Some p) (Some file) line (Some expected') (Some actual') N h
           = CuTest_EvalAssertMemEquals (Some p) (Some file) line (Some expected) (Some actual) N h"
    using k same CuTest_EvalAssertMemEquals_mismatch [of k N expected actual]
    by simp
qed

lemma CuTest_EvalAssertMemEquals_outcome_witness:
  "CuTest_EvalAssertMemEquals (Some 1) (Some ''test/main.c'') 30 (Some buffer_expected)
       (Some buffer_expected) 4 main_heap
     = Returned (main_heap(1 := (main_heap 1)\<lparr>eResult := EN_CUTEST_RESULT_PASS\<rparr>)) \<and>
   (2::nat) < 4 \<and> buffer_expected 2 \<noteq> buffer_actual 2 \<and>
   buffer_expected 0 = buffer_actual 0 \<and> buffer_expected 1 = buffer_actual 1 \<and>
   CuTest_EvalAssertMemEquals (Some 1) (Some ''test/main.c'') 30 (Some buffer_expected)
       (Some buffer_actual) 4 main_heap
     = Jumped 1 (main_heap(1 := (main_heap 1)\<lparr>acMessage :=
                     ''mismatch at offset <2>: expected <0x10>, but was <0xAB>'',
                   pszMsgFile := ''test/main.c'', ulMsgLine := 30,
                   eResult := EN_CUTEST_RESULT_FAIL\<rparr>))"
proof -
  have differ: "(2::nat) < 4 \<and> buffer_expected 2 \<noteq> buffer_actual 2 \<and>
                (\<forall>i<2. buffer_expected i = buffer_actual i)"
    by (simp add: buffer_expected_def buffer_actual_def)
  have printed: "printf_d 2 = ''2''" "printf_02X (buffer_expected 2) = ''10''"
    "printf_02X (buffer_actual 2) = ''AB''"
    by (simp_all add: printf_d_def dec_digit printf_02X_def buffer_expected_def
        buffer_actual_def)
  from CuTest_EvalAssertMemEquals_outcome
         [of 4 buffer_expected buffer_expected 1 "''test/main.c''" 30 main_heap 2]
  have equal: "CuTest_EvalAssertMemEquals (Some 1) (Some ''test/main.c'') 30
                   (Some buffer_expected) (Some buffer_expected) 4 main_heap
                 = Returned (main_heap(1 := (main_heap 1)\<lparr>eResult := EN_CUTEST_RESULT_PASS\<rparr>))"
    by simp
  from CuTest_EvalAssertMemEquals_outcome
         [of 4 buffer_expected buffer_actual 1 "''test/main.c''" 30 main_heap 2] differ
  have "CuTest_EvalAssertMemEquals (Some 1) (Some ''test/main.c'') 30 (Some buffer_expected)
            (Some buffer_actual) 4 main_heap
          = Jumped 1 (main_heap(1 := (main_heap 1)\<lparr>acMessage :=
                       ''mismatch at offset <'' @ printf_d 2 @ ''>: expected <0x''
                       @ printf_02X (buffer_expected 2) @ ''>, but was <0x''
                       @ printf_02X (buffer_actual 2) @ ''>'',
                     pszMsgFile := ''test/main.c'', ulMsgLine := 30,
                     eResult := EN_CUTEST_RESULT_FAIL\<rparr>))"
    by blast
  then have mismatch:
    "CuTest_EvalAssertMemEquals (Some 1) (Some ''test/main.c'') 30 (Some buffer_expected)
         (Some buffer_actual) 4 main_heap
       = Jumped 1 (main_heap(1 := (main_heap 1)\<lparr>acMessage :=
                       ''mismatch at offset <2>: expected <0x10>, but was <0xAB>'',
                     pszMsgFile := ''test/main.c'', ulMsgLine := 30,
                     eResult := EN_CUTEST_RESULT_FAIL\<rparr>))"
    by (simp add: printed)
  have agree: "buffer_expected 0 = buffer_actual 0" "buffer_expected 1 = buffer_actual 1"
    by (simp_all add: buffer_expected_def buffer_actual_def)
  show ?thesis
    using equal differ mismatch agree by blast
qed

lemma dec_2147483648: "dec 2147483648 = ''2147483648''"
  by (simp add: dec_more dec_digit)

lemma printf_d_wraps: "printf_d 2147483648 = ''-2147483648''"
  by (simp add: printf_d_def dec_2147483648)

text \<open>
  Claim C6 at two buffers of \<open>2 ^ 31 + 1\<close> bytes whose first difference is at the offset
  \<open>2 ^ 31\<close>. The format string prints the offset, a \<open>size_t\<close>, with \<open>%d\<close>: the message
  names the offset \<open>-2147483648\<close>, not the offset of the difference.
\<close>

theorem CuTest_EvalAssertMemEquals_large_offset:
  "CuTest_EvalAssertMemEquals (Some 1) (Some ''test/main.c'') 30 (Some large_expected)
       (Some large_actual) 2147483649 main_heap
     = Jumped 1 (main_heap(1 := (main_heap 1)\<lparr>acMessage :=
                     ''mismatch at offset <-2147483648>: expected <0x00>, but was <0x01>'',
                   pszMsgFile := ''test/main.c'', ulMsgLine := 30,
                   eResult := EN_CUTEST_RESULT_FAIL\<rparr>))"
proof -
  have first: "(2147483648::nat) < 2147483649"
    "large_expected 2147483648 \<noteq> large_actual 2147483648"
    "\<forall>i<2147483648. large_expected i = large_actual i"
    by (simp_all add: large_expected_def large_actual_def)
  have printed: "printf_02X (large_expected 2147483648) = ''00''"
    "printf_02X (large_actual 2147483648) = ''01''"
    by (simp_all add: printf_02X_def large_expected_def large_actual_def)
  have "CuTest_EvalAssertMemEquals (Some 1) (Some ''test/main.c'') 30 (Some large_expected)
            (Some large_actual) 2147483649 main_heap
          = Jumped 1 (main_heap(1 := (main_heap 1)\<lparr>acMessage :=
                       ''mismatch at offset <'' @ printf_d 2147483648 @ ''>: expected <0x''
                       @ printf_02X (large_expected 2147483648) @ ''>, but was <0x''
                       @ printf_02X (large_actual 2147483648) @ ''>'',
                     pszMsgFile := ''test/main.c'', ulMsgLine := 30,
                     eResult := EN_CUTEST_RESULT_FAIL\<rparr>))"
    by (rule CuTest_EvalAssertMemEquals_mismatch [OF first])
  then show ?thesis
    by (simp add: printed printf_d_wraps)
qed


section \<open>Properties of the floating-point assertion\<close>

text \<open>
  On finite values, with the difference taken exact, the assertion passes exactly
  within the tolerance; a NaN among the expected and the actual value always passes.
\<close>

lemma CuTest_EvalAssertFltEquals_finite:
  "CuTest_EvalAssertFltEquals printf_Lf (Some p) (Some file) line (Fin e) (Fin a) (Fin tol) h
     = Returned (h(p := (h p)\<lparr>eResult := EN_CUTEST_RESULT_PASS\<rparr>))
   \<longleftrightarrow> \<bar>a - e\<bar> \<le> tol"
  by (auto simp: CuTest_EvalAssertFltEquals_def CuTestAssertPassed_def CuTestAssertFailed_def
      Let_def)

lemma CuTest_EvalAssertFltEquals_NaN:
  assumes "\<not> isnan tol" and "isnan e \<or> isnan a"
  shows "CuTest_EvalAssertFltEquals printf_Lf (Some p) (Some file) line e a tol h
           = Returned (h(p := (h p)\<lparr>eResult := EN_CUTEST_RESULT_PASS\<rparr>))"
proof -
  have "ld_sub a e = NaN"
    using assms(2) by (cases e; cases a) simp_all
  then show ?thesis
    using assms(1)
    by (simp add: CuTest_EvalAssertFltEquals_def CuTestAssertPassed_def)
qed

text \<open>
  Claim C5 at the expected value 1, the actual value NaN and the tolerance 0.5. The
  deviation is a NaN, \<open>llfDeviation > llfTolerance\<close> is false and the assertion passes,
  while \<open>|a - e| <= tol\<close> is false as well: the code fails only what exceeds the
  tolerance and so lets every NaN pass.
\<close>

theorem CuTest_EvalAssertFltEquals_NaN_passes:
  "CuTest_EvalAssertFltEquals printf_Lf (Some 1) (Some ''test/main.c'') 30 (Fin 1) NaN
       (Fin (1 / 2)) main_heap
     = Returned (main_heap(1 := (main_heap 1)\<lparr>eResult := EN_CUTEST_RESULT_PASS\<rparr>)) \<and>
   \<not> isnan (Fin (1 / 2)) \<and>
   \<not> ld_le (fabsl (ld_sub NaN (Fin 1))) (Fin (1 / 2))"
  by (simp add: CuTest_EvalAssertFltEquals_def CuTestAssertPassed_def)


section \<open>Properties of the HTML report\<close>

text \<open>
  Below the limit of the assertion on \<open>ulCount\<close>: when the arguments meet the assertions
  at the head of \<open>CuTest_GenerateRunReport\<close> (a run with a name and with fewer than
  \<open>CUTEST_MAX_NUM_ROOT_ITEM\<close> root elements, a time and a file name) and \<open>fopen\<close> fails,
  the function returns and changes nothing: no file is written, the standard output
  and the cases are as before, and so are the statistics and the result of the run.
\<close>

lemma CuTest_GenerateRunReport_fopen_fails:
  assumes "cutest_root_t.pszName r = Some name"
    and "ulCount r < CUTEST_MAX_NUM_ROOT_ITEM"
    and "\<not> fopen_w c path"
  shows "\<exists>w'. CuTest_GenerateRunReport img c (Some r) (Some t) (Some path) w = Inr w' \<and>
           w' = w \<and> files w' = files w \<and> stdout w' = stdout w \<and> cases w' = cases w \<and>
           CuTestGetStats img (cases w') (Some r) = CuTestGetStats img (cases w) (Some r) \<and>
           CuTest_GetRunResult img (cases w') (Some r) = CuTest_GetRunResult img (cases w) (Some r)"
  using assms by (simp add: CuTest_GenerateRunReport_def)

lemma CuTest_GenerateRunReport_fopen_fails_witness:
  "cutest_root_t.pszName main_root = Some ''Unnamed Project'' \<and>
   ulCount main_root < CUTEST_MAX_NUM_ROOT_ITEM \<and>
   \<not> fopen_w readonly_libc ''report.html'' \<and>
   CuTest_GenerateRunReport main_image readonly_libc (Some main_root) (Some 0)
       (Some ''report.html'') main_world = Inr main_world \<and>
   files main_world ''report.html'' = None"
proof -
  have name: "cutest_root_t.pszName main_root = Some ''Unnamed Project''"
    by (simp add: main_root_def)
  have count: "ulCount main_root < CUTEST_MAX_NUM_ROOT_ITEM"
    by (simp add: main_root_def CUTEST_MAX_NUM_ROOT_ITEM_def)
  have closed: "\<not> fopen_w readonly_libc ''report.html''"
    by (simp add: readonly_libc_def)
  from CuTest_GenerateRunReport_fopen_fails [OF name count closed, of main_image 0 main_world]
  show ?thesis
    using name count closed by (auto simp: main_world_def)
qed

section \<open>Properties of the scans over the slots\<close>

text \<open>A loop that skips the null slots visits every non-null slot, in the order of the indices.\<close>

lemma skip_loop_Inl:
  "fold (\<lambda>i acc. case acc of Inl e \<Rightarrow> Inl e
                  | Inr s \<Rightarrow> (case items i of None \<Rightarrow> Inr s | Some p \<Rightarrow> F p s)) is (Inl e)
     = Inl e"
  by (induction "is") simp_all

lemma skip_loop_visit:
  "fold (\<lambda>i acc. case acc of Inl e \<Rightarrow> Inl e
                  | Inr s \<Rightarrow> (case items i of None \<Rightarrow> Inr s | Some p \<Rightarrow> F p s)) is (Inr s)
     = visit F (List.map_filter items is) s"
proof (induction "is" arbitrary: s)
  case Nil
  show ?case by (simp add: map_filter_simps)
next
  case (Cons i rest)
  show ?case
  proof (cases "items i")
    case None
    then show ?thesis using Cons.IH [of s] by (simp add: map_filter_simps)
  next
    case (Some p)
    show ?thesis
    proof (cases "F p s")
      case (Inl e)
      then show ?thesis using Some by (simp add: map_filter_simps skip_loop_Inl)
    next
      case (Inr s')
      then show ?thesis using Some Cons.IH [of s'] by (simp add: map_filter_simps)
    qed
  qed
qed

lemma CuTest_RunTestGroup_visit:
  assumes "cutest_group_t.ppItems (group_at img g) = Some items"
  shows "CuTest_RunTestGroup img (Some g) w
           = visit (\<lambda>p. CuTest_RunTestCase img (Some p)) (cases_of_group img g) w"
proof -
  have "CuTest_RunTestGroup_iter img items
          = (\<lambda>i acc. case acc of Inl e \<Rightarrow> Inl e
                      | Inr s \<Rightarrow> (case items i of None \<Rightarrow> Inr s
                                   | Some p \<Rightarrow> CuTest_RunTestCase img (Some p) s))"
    by (intro ext) (simp add: CuTest_RunTestGroup_iter_def)
  then show ?thesis
    using assms by (simp add: CuTest_RunTestGroup_def cases_of_group_def skip_loop_visit)
qed

lemma CuTestPrintDetails_Group_visit:
  assumes "cutest_group_t.ppItems (group_at img g) = Some items"
  shows "CuTestPrintDetails_Group img h (Some g) st
           = visit (\<lambda>p. CuTestPrintDetails_Case h (Some p)) (cases_of_group img g) st"
proof -
  have "CuTestPrintDetails_Group_iter h items
          = (\<lambda>i acc. case acc of Inl e \<Rightarrow> Inl e
                      | Inr s \<Rightarrow> (case items i of None \<Rightarrow> Inr s
                                   | Some p \<Rightarrow> CuTestPrintDetails_Case h (Some p) s))"
    by (intro ext) (simp add: CuTestPrintDetails_Group_iter_def)
  then show ?thesis
    using assms by (simp add: CuTestPrintDetails_Group_def cases_of_group_def skip_loop_visit)
qed

lemma CuTestGenerateReport_Group_visit:
  assumes "cutest_group_t.ppItems (group_at img g) = Some items"
  shows "CuTestGenerateReport_Group img h (Some g) st
           = (case visit (\<lambda>p. CuTestGenerateReport_CaseLine h (Some p)) (cases_of_group img g)
                     (fst st, CuTestGenerateReport_CaseHeader
                                (snd st @ ''<h3>'' @ cutest_group_t.pszName (group_at img g)
                                   @ ''</h3>'')) of
                Inl e \<Rightarrow> Inl e
              | Inr st' \<Rightarrow> Inr (fst st', CuTestGenerateReport_CaseFooter (snd st')))"
proof -
  have "CuTestGenerateReport_Group_iter h items
          = (\<lambda>i acc. case acc of Inl e \<Rightarrow> Inl e
                      | Inr s \<Rightarrow> (case items i of None \<Rightarrow> Inr s
                                   | Some p \<Rightarrow> CuTestGenerateReport_CaseLine h (Some p) s))"
    by (intro ext) (simp add: CuTestGenerateReport_Group_iter_def)
  then show ?thesis
    using assms
    by (simp add: CuTestGenerateReport_Group_def cases_of_group_def skip_loop_visit
        del: append.simps)
qed

text \<open>A loop that breaks at the first null slot visits the slots before it.\<close>

lemma break_loop_visit:
  "CuTestPrintSummaryTape_Group_loop h items is out
     = visit (\<lambda>p. CuTestPrintSummaryTape_Case h (Some p))
         (List.map_filter id (takeWhile (\<lambda>slot. slot \<noteq> None) (map items is))) out"
proof (induction "is" arbitrary: out)
  case Nil
  show ?case by (simp add: map_filter_simps)
next
  case (Cons i rest)
  show ?case
  proof (cases "items i")
    case None
    then show ?thesis by (simp add: map_filter_simps)
  next
    case (Some p)
    then show ?thesis using Cons.IH by (simp add: map_filter_simps split: sum.splits)
  qed
qed

lemma CuTestPrintSummaryTape_Group_visit:
  assumes "cutest_group_t.ppItems (group_at img g) = Some items"
  shows "CuTestPrintSummaryTape_Group img h (Some g) out
           = visit (\<lambda>p. CuTestPrintSummaryTape_Case h (Some p))
               (packed_prefix items CUTEST_MAX_NUM_CASES) out"
  using assms by (simp add: CuTestPrintSummaryTape_Group_def break_loop_visit packed_prefix_def)

lemma set_map_filter_upt: "set (List.map_filter f [0..<n]) = {p. \<exists>j<n. f j = Some p}"
  by (force simp: List.map_filter_def image_iff)

text \<open>On an array without a gap the two kinds of loop visit the same slots.\<close>

lemma packed_prefix_all:
  assumes "\<And>i j. i < j \<Longrightarrow> j < n \<Longrightarrow> items i = None \<Longrightarrow> items j = None"
  shows "packed_prefix items n = List.map_filter items [0..<n]"
proof -
  have "List.map_filter id (takeWhile (\<lambda>slot. slot \<noteq> None) (map items [a..<n]))
          = List.map_filter items [a..<n]" for a
  proof (induction "n - a" arbitrary: a)
    case 0
    then show ?case by (simp add: map_filter_simps)
  next
    case (Suc d)
    then have an: "a < n" and d: "d = n - Suc a" by simp_all
    have upt: "[a..<n] = a # [Suc a..<n]" using an by (simp add: upt_conv_Cons)
    show ?case
    proof (cases "items a")
      case None
      have "\<forall>j \<in> set [Suc a..<n]. items j = None"
        using assms [of a] None by simp
      then have "List.map_filter items [Suc a..<n] = []"
        by (induction "[Suc a..<n]" arbitrary: a) (auto simp: List.map_filter_def)
      then show ?thesis using None by (simp add: upt map_filter_simps)
    next
      case (Some p)
      then show ?thesis using Suc.hyps(1) [OF d] by (simp add: upt map_filter_simps)
    qed
  qed
  from this [of 0] show ?thesis by (simp add: packed_prefix_def)
qed

lemma CuTest_RunTestModule_visit:
  assumes "cutest_module_t.ppItems (module_at img m) = Some items"
  shows "CuTest_RunTestModule img (Some m) w
           = visit (\<lambda>g. CuTest_RunTestGroup img (Some g)) (groups_of_module img m) w"
proof -
  have "CuTest_RunTestModule_iter img items
          = (\<lambda>i acc. case acc of Inl e \<Rightarrow> Inl e
                      | Inr s \<Rightarrow> (case items i of None \<Rightarrow> Inr s
                                   | Some g \<Rightarrow> CuTest_RunTestGroup img (Some g) s))"
    by (intro ext) (simp add: CuTest_RunTestModule_iter_def)
  then show ?thesis
    using assms by (simp add: CuTest_RunTestModule_def groups_of_module_def skip_loop_visit)
qed

lemma CuTestGetStats_Module_visit:
  assumes "cutest_module_t.ppItems (module_at img m) = Some items"
  shows "CuTestGetStats_Module img h (Some m)
           = visit (\<lambda>g sModule. case CuTestGetStats_Group img h (Some g) of
                                   Inl e \<Rightarrow> Inl e
                                 | Inr sGroup \<Rightarrow> Inr (stats_add sModule sGroup))
               (groups_of_module img m) stats_zero"
proof -
  have "CuTestGetStats_Module_iter img h items
          = (\<lambda>i acc. case acc of Inl e \<Rightarrow> Inl e
                      | Inr s \<Rightarrow> (case items i of None \<Rightarrow> Inr s
                                   | Some g \<Rightarrow> (case CuTestGetStats_Group img h (Some g) of
                                                  Inl e \<Rightarrow> Inl e
                                                | Inr sGroup \<Rightarrow> Inr (stats_add s sGroup))))"
    by (intro ext) (simp add: CuTestGetStats_Module_iter_def)
  then show ?thesis
    using assms by (simp add: CuTestGetStats_Module_def groups_of_module_def skip_loop_visit)
qed

lemma CuTestPrintDetails_Module_visit:
  assumes "cutest_module_t.ppItems (module_at img m) = Some items"
  shows "CuTestPrintDetails_Module img h (Some m) st
           = visit (\<lambda>g. CuTestPrintDetails_Group img h (Some g)) (groups_of_module img m) st"
proof -
  have "CuTestPrintDetails_Module_iter img h items
          = (\<lambda>i acc. case acc of Inl e \<Rightarrow> Inl e
                      | Inr s \<Rightarrow> (case items i of None \<Rightarrow> Inr s
                                   | Some g \<Rightarrow> CuTestPrintDetails_Group img h (Some g) s))"
    by (intro ext) (simp add: CuTestPrintDetails_Module_iter_def)
  then show ?thesis
    using assms by (simp add: CuTestPrintDetails_Module_def groups_of_module_def skip_loop_visit)
qed

lemma CuTestGenerateReport_Module_visit:
  assumes "cutest_module_t.ppItems (module_at img m) = Some items"
  shows "CuTestGenerateReport_Module img h (Some m) st
           = visit (\<lambda>g. CuTestGenerateReport_Group img h (Some g)) (groups_of_module img m)
               (fst st, snd st @ ''<h2>'' @ cutest_module_t.pszName (module_at img m) @ ''</h2>'')"
proof -
  have "CuTestGenerateReport_Module_iter img h items
          = (\<lambda>i acc. case acc of Inl e \<Rightarrow> Inl e
                      | Inr s \<Rightarrow> (case items i of None \<Rightarrow> Inr s
                                   | Some g \<Rightarrow> CuTestGenerateReport_Group img h (Some g) s))"
    by (intro ext) (simp add: CuTestGenerateReport_Module_iter_def)
  then show ?thesis
    using assms
    by (simp add: CuTestGenerateReport_Module_def groups_of_module_def skip_loop_visit
        del: append.simps)
qed

lemma break_loop_Module_visit:
  "CuTestPrintSummaryTape_Module_loop img h items is out
     = visit (\<lambda>g. CuTestPrintSummaryTape_Group img h (Some g))
         (List.map_filter id (takeWhile (\<lambda>slot. slot \<noteq> None) (map items is))) out"
proof (induction "is" arbitrary: out)
  case Nil
  show ?case by (simp add: map_filter_simps)
next
  case (Cons i rest)
  show ?case
  proof (cases "items i")
    case None
    then show ?thesis by (simp add: map_filter_simps)
  next
    case (Some g)
    then show ?thesis using Cons.IH by (simp add: map_filter_simps split: sum.splits)
  qed
qed

lemma CuTestPrintSummaryTape_Module_visit:
  assumes "cutest_module_t.ppItems (module_at img m) = Some items"
  shows "CuTestPrintSummaryTape_Module img h (Some m) out
           = visit (\<lambda>g. CuTestPrintSummaryTape_Group img h (Some g))
               (packed_prefix items CUTEST_MAX_NUM_GROUPS) out"
  using assms
  by (simp add: CuTestPrintSummaryTape_Module_def break_loop_Module_visit packed_prefix_def)

lemma cases_of_gap_group: "cases_of_group gap_image g = [1, 2]"
proof -
  have "List.map_filter (\<lambda>i. if i = 0 then Some 1 else if i = 2 then Some 2 else None) [0..<256]
          = List.map_filter (\<lambda>i::nat. if i = 0 then Some 1 else if i = 2 then Some (2::nat) else None) [0..<3]"
    by (rule map_filter_upt_cut) simp_all
  also have "\<dots> = [1, 2]"
    by (simp add: upt_0_3 map_filter_simps)
  finally show ?thesis
    by (simp add: cases_of_group_def gap_image_def gap_group_def CUTEST_MAX_NUM_CASES_def)
qed

lemma gap_items:
  "cutest_group_t.ppItems (group_at gap_image g)
     = Some (\<lambda>i. if i = 0 then Some 1 else if i = 2 then Some 2 else None)"
  by (simp add: gap_image_def gap_group_def)

lemma gap_image_fn:
  "fn_at gap_image a = (if a = 2 then TEST_Module_MyGroup_Case2_TestFn
                        else TEST_Module_MyGroup_Case1_TestFn)"
  by (simp add: gap_image_def main_image_simps)

lemma packed_prefix_gap:
  "packed_prefix (\<lambda>i. if i = 0 then Some 1 else if i = 2 then Some 2 else None)
     CUTEST_MAX_NUM_CASES = [1]"
proof -
  have "[0..<256] = [0, 1] @ [2..<256]"
    using upt_add_eq_append [of 0 2 254] by (simp add: upt_0_2)
  then show ?thesis
    by (simp add: packed_prefix_def CUTEST_MAX_NUM_CASES_def map_filter_simps)
qed

lemma gap_group_run:
  "map_sum id (\<lambda>w. (eResult (cases w 1), eResult (cases w 2)))
       (CuTest_RunTestGroup gap_image (Some 1) main_world)
     = Inr (EN_CUTEST_RESULT_PASS, EN_CUTEST_RESULT_FAIL)"
  by (simp add: CuTest_RunTestGroup_visit [OF gap_items] cases_of_gap_group
      CuTest_RunTestCase_def CuTest_RunTestCase_call_def main_world_def main_heap_fn
      gap_image_fn TEST_Module_MyGroup_Case1_TestFn_def TEST_Module_MyGroup_Case2_TestFn_def
      CuTest_EvalAssert_true CuTest_EvalAssert_false)

lemma gap_group_stats:
  "CuTestGetStats_Group gap_image main_heap (Some 1)
     = Inr \<lparr>ulTotal = 2, ulPassed = 0, ulFailed = 0\<rparr>"
  by (simp add: CuTestGetStats_Group_run [OF gap_items] cases_of_gap_group stats_of_def
      main_heap_def TEST_CASE_def)

lemma gap_group_details:
  "map_sum id fst (CuTestPrintDetails_Group gap_image main_heap (Some 1) (0, [])) = Inr 2"
  by (simp add: CuTestPrintDetails_Group_visit [OF gap_items] cases_of_gap_group
      CuTestPrintDetails_Case_def main_heap_def TEST_CASE_def ul_add_def Let_def)

lemma gap_group_tape:
  "CuTestPrintSummaryTape_Group gap_image main_heap (Some 1) [] = Inr ''?''"
  by (simp add: CuTestPrintSummaryTape_Group_visit [OF gap_items] packed_prefix_gap
      CuTestPrintSummaryTape_Case_def main_heap_def TEST_CASE_def)

text \<open>
  The claim C1 as it is written fails on the group with a gap: its array holds a case
  at index 0, a null pointer at index 1 and a case at index 2. The case at index 2 is
  counted (the total is 2), it is run (its result goes from
  \<open>EN_CUTEST_RESULT_UNDEF\<close> to \<open>EN_CUTEST_RESULT_FAIL\<close>) and the detail listing numbers
  two entries.
\<close>

theorem scan_stops_at_gap_counterexample:
  "map_option (\<lambda>items. (items 0, items 1, items 2))
       (cutest_group_t.ppItems (group_at gap_image 1)) = Some (Some 1, None, Some 2) \<and>
   CuTestGetStats_Group gap_image main_heap (Some 1)
     = Inr \<lparr>ulTotal = 2, ulPassed = 0, ulFailed = 0\<rparr> \<and>
   eResult (cases main_world 2) = EN_CUTEST_RESULT_UNDEF \<and>
   map_sum id (\<lambda>w. (eResult (cases w 1), eResult (cases w 2)))
       (CuTest_RunTestGroup gap_image (Some 1) main_world)
     = Inr (EN_CUTEST_RESULT_PASS, EN_CUTEST_RESULT_FAIL) \<and>
   map_sum id fst (CuTestPrintDetails_Group gap_image main_heap (Some 1) (0, [])) = Inr 2"
proof (intro conjI)
  show "map_option (\<lambda>items. (items 0, items 1, items 2))
          (cutest_group_t.ppItems (group_at gap_image 1)) = Some (Some 1, None, Some 2)"
    by (simp add: gap_items)
  show "CuTestGetStats_Group gap_image main_heap (Some 1)
          = Inr \<lparr>ulTotal = 2, ulPassed = 0, ulFailed = 0\<rparr>"
    by (rule gap_group_stats)
  show "eResult (cases main_world 2) = EN_CUTEST_RESULT_UNDEF"
    by (simp add: main_world_def main_heap_def TEST_CASE_def)
  show "map_sum id (\<lambda>w. (eResult (cases w 1), eResult (cases w 2)))
          (CuTest_RunTestGroup gap_image (Some 1) main_world)
        = Inr (EN_CUTEST_RESULT_PASS, EN_CUTEST_RESULT_FAIL)"
    by (rule gap_group_run)
  show "map_sum id fst (CuTestPrintDetails_Group gap_image main_heap (Some 1) (0, [])) = Inr 2"
    by (rule gap_group_details)
qed

text \<open>
  Claim C1, amended. The group runner, the statistics, the detail listing and the HTML
  report go through all \<open>CUTEST_MAX_NUM_CASES\<close> slots of a group and skip the null ones:
  every non-null slot, also one after a null slot, is run, counted, listed and
  reported, in the order of the indices. Only the summary tape stops at the first null
  slot. The same holds for the \<open>CUTEST_MAX_NUM_GROUPS\<close> slots of a module. On an array in
  which no null slot comes before a non-null one the tape visits the same slots as the
  others.
\<close>

theorem scans_visit_every_occupied_slot:
  assumes "cutest_group_t.ppItems (group_at img g) = Some items"
    and "cutest_module_t.ppItems (module_at img m) = Some gitems"
  shows "cases_of_group img g = List.map_filter items [0..<CUTEST_MAX_NUM_CASES] \<and>
         (\<forall>j<CUTEST_MAX_NUM_CASES. \<forall>q. items j = Some q \<longrightarrow> q \<in> set (cases_of_group img g)) \<and>
         CuTest_RunTestGroup img (Some g) w
           = visit (\<lambda>p. CuTest_RunTestCase img (Some p)) (cases_of_group img g) w \<and>
         CuTestGetStats_Group img h (Some g) = Inr (stats_of h (cases_of_group img g)) \<and>
         CuTestPrintDetails_Group img h (Some g) st
           = visit (\<lambda>p. CuTestPrintDetails_Case h (Some p)) (cases_of_group img g) st \<and>
         CuTestGenerateReport_Group img h (Some g) st
           = (case visit (\<lambda>p. CuTestGenerateReport_CaseLine h (Some p)) (cases_of_group img g)
                     (fst st, CuTestGenerateReport_CaseHeader
                                (snd st @ ''<h3>'' @ cutest_group_t.pszName (group_at img g)
                                   @ ''</h3>'')) of
                Inl e \<Rightarrow> Inl e
              | Inr st' \<Rightarrow> Inr (fst st', CuTestGenerateReport_CaseFooter (snd st'))) \<and>
         CuTestPrintSummaryTape_Group img h (Some g) out
           = visit (\<lambda>p. CuTestPrintSummaryTape_Case h (Some p))
               (packed_prefix items CUTEST_MAX_NUM_CASES) out \<and>
         ((\<forall>i j. i < j \<and> j < CUTEST_MAX_NUM_CASES \<and> items i = None \<longrightarrow> items j = None) \<longrightarrow>
            packed_prefix items CUTEST_MAX_NUM_CASES = cases_of_group img g) \<and>
         groups_of_module img m = List.map_filter gitems [0..<CUTEST_MAX_NUM_GROUPS] \<and>
         (\<forall>j<CUTEST_MAX_NUM_GROUPS. \<forall>q. gitems j = Some q \<longrightarrow> q \<in> set (groups_of_module img m)) \<and>
         CuTest_RunTestModule img (Some m) w
           = visit (\<lambda>g. CuTest_RunTestGroup img (Some g)) (groups_of_module img m) w \<and>
         CuTestGetStats_Module img h (Some m)
           = visit (\<lambda>g sModule. case CuTestGetStats_Group img h (Some g) of
                                   Inl e \<Rightarrow> Inl e
                                 | Inr sGroup \<Rightarrow> Inr (stats_add sModule sGroup))
               (groups_of_module img m) stats_zero \<and>
         CuTestPrintDetails_Module img h (Some m) st
           = visit (\<lambda>g. CuTestPrintDetails_Group img h (Some g)) (groups_of_module img m) st \<and>
         CuTestGenerateReport_Module img h (Some m) st
           = visit (\<lambda>g. CuTestGenerateReport_Group img h (Some g)) (groups_of_module img m)
               (fst st, snd st @ ''<h2>'' @ cutest_module_t.pszName (module_at img m) @ ''</h2>'') \<and>
         CuTestPrintSummaryTape_Module img h (Some m) out
           = visit (\<lambda>g. CuTestPrintSummaryTape_Group img h (Some g))
               (packed_prefix gitems CUTEST_MAX_NUM_GROUPS) out"
proof -
  have cs: "cases_of_group img g = List.map_filter items [0..<CUTEST_MAX_NUM_CASES]"
    using assms(1) by (simp add: cases_of_group_def)
  have gs: "groups_of_module img m = List.map_filter gitems [0..<CUTEST_MAX_NUM_GROUPS]"
    using assms(2) by (simp add: groups_of_module_def)
  have c_all: "\<forall>j<CUTEST_MAX_NUM_CASES. \<forall>q. items j = Some q \<longrightarrow> q \<in> set (cases_of_group img g)"
    unfolding cs set_map_filter_upt by blast
  have g_all: "\<forall>j<CUTEST_MAX_NUM_GROUPS. \<forall>q. gitems j = Some q \<longrightarrow> q \<in> set (groups_of_module img m)"
    unfolding gs set_map_filter_upt by blast
  have packed: "packed_prefix items CUTEST_MAX_NUM_CASES = cases_of_group img g"
    if "\<forall>i j. i < j \<and> j < CUTEST_MAX_NUM_CASES \<and> items i = None \<longrightarrow> items j = None"
    unfolding cs using that by (intro packed_prefix_all) blast
  note group = CuTest_RunTestGroup_visit [OF assms(1)] CuTestGetStats_Group_run [OF assms(1)]
    CuTestPrintDetails_Group_visit [OF assms(1)] CuTestGenerateReport_Group_visit [OF assms(1)]
    CuTestPrintSummaryTape_Group_visit [OF assms(1)]
  note module = CuTest_RunTestModule_visit [OF assms(2)] CuTestGetStats_Module_visit [OF assms(2)]
    CuTestPrintDetails_Module_visit [OF assms(2)] CuTestGenerateReport_Module_visit [OF assms(2)]
    CuTestPrintSummaryTape_Module_visit [OF assms(2)]
  show ?thesis
    by (intro conjI impI cs gs c_all g_all packed group module) assumption
qed

theorem scans_visit_every_occupied_slot_witness:
  "cutest_group_t.ppItems (group_at gap_image 1)
     = Some (\<lambda>i. if i = 0 then Some 1 else if i = 2 then Some 2 else None) \<and>
   cutest_module_t.ppItems (module_at gap_image 1) = Some (\<lambda>i. if i = 0 then Some 1 else None) \<and>
   cases_of_group gap_image 1 = [1, 2] \<and>
   packed_prefix (\<lambda>i. if i = 0 then Some 1 else if i = 2 then Some 2 else None)
     CUTEST_MAX_NUM_CASES = [1] \<and>
   CuTestGetStats_Group gap_image main_heap (Some 1) = Inr (stats_of main_heap [1, 2]) \<and>
   CuTest_RunTestGroup gap_image (Some 1) main_world
     = visit (\<lambda>p. CuTest_RunTestCase gap_image (Some p)) [1, 2] main_world \<and>
   CuTestPrintSummaryTape_Group gap_image main_heap (Some 1) []
     = visit (\<lambda>p. CuTestPrintSummaryTape_Case main_heap (Some p)) [1] []"
proof -
  have mitems: "cutest_module_t.ppItems (module_at gap_image 1)
                  = Some (\<lambda>i. if i = 0 then Some 1 else None)"
    by (simp add: gap_image_def main_image_simps main_items)
  note scans = scans_visit_every_occupied_slot
    [OF gap_items [of 1] mitems, where w = main_world and h = main_heap and out = "[]"]
  have stats: "CuTestGetStats_Group gap_image main_heap (Some 1)
                 = Inr (stats_of main_heap (cases_of_group gap_image 1))"
    using scans by blast
  have run: "CuTest_RunTestGroup gap_image (Some 1) main_world
               = visit (\<lambda>p. CuTest_RunTestCase gap_image (Some p)) (cases_of_group gap_image 1)
                   main_world"
    using scans by blast
  have tape: "CuTestPrintSummaryTape_Group gap_image main_heap (Some 1) []
                = visit (\<lambda>p. CuTestPrintSummaryTape_Case main_heap (Some p))
                    (packed_prefix (\<lambda>i. if i = 0 then Some 1 else if i = 2 then Some 2 else None)
                       CUTEST_MAX_NUM_CASES) []"
    using scans by blast
  show ?thesis
    using stats run tape
    by (simp only: cases_of_gap_group packed_prefix_gap gap_items mitems simp_thms)
qed

section \<open>The calls return\<close>

text \<open>
  With a stream the same call writes the report, which is not empty: the silent
  return is the failure path only. The second lemma is the limit of the assertion on
  \<open>ulCount\<close>: a run that holds \<open>CUTEST_MAX_NUM_ROOT_ITEM\<close> root elements, which
  \<open>CuTest_AppendRootItem\<close> lets it reach, stops in the assertion of the report and of
  the statistics.
\<close>

lemma visit_returns:
  assumes "\<And>p s. p \<in> set ps \<Longrightarrow> \<exists>s'. F p s = Inr s'"
  shows "\<exists>s'. visit F ps s = Inr s'"
  using assms
proof (induction ps arbitrary: s)
  case Nil
  show ?case by simp
next
  case (Cons p ps)
  obtain s1 where "F p s = Inr s1" using Cons.prems [of p s] by auto
  moreover have "\<exists>s'. visit F ps s1 = Inr s'"
    by (rule Cons.IH) (simp add: Cons.prems)
  ultimately show ?case by simp
qed

lemma CuTestGenerateReport_CaseLine_returns:
  "\<exists>st'. CuTestGenerateReport_CaseLine h (Some p) st = Inr st'"
  by (simp add: CuTestGenerateReport_CaseLine_def Let_def split: prod.splits)

lemma CuTestGenerateReport_Group_returns:
  assumes "cutest_group_t.ppItems (group_at img g) = Some items"
  shows "\<exists>st'. CuTestGenerateReport_Group img h (Some g) st = Inr st'"
proof -
  obtain st1 where "visit (\<lambda>p. CuTestGenerateReport_CaseLine h (Some p)) (cases_of_group img g)
                      (fst st, CuTestGenerateReport_CaseHeader
                                 (snd st @ ''<h3>'' @ cutest_group_t.pszName (group_at img g)
                                    @ ''</h3>'')) = Inr st1"
    using visit_returns [of "cases_of_group img g" "\<lambda>p. CuTestGenerateReport_CaseLine h (Some p)"]
      CuTestGenerateReport_CaseLine_returns by blast
  then show ?thesis
    unfolding CuTestGenerateReport_Group_visit [OF assms] by simp
qed

lemma CuTestGenerateReport_Module_returns:
  assumes "cutest_module_t.ppItems (module_at img m) = Some gitems"
    and "\<And>g. g \<in> set (groups_of_module img m) \<Longrightarrow> cutest_group_t.ppItems (group_at img g) \<noteq> None"
  shows "\<exists>st'. CuTestGenerateReport_Module img h (Some m) st = Inr st'"
  unfolding CuTestGenerateReport_Module_visit [OF assms(1)]
proof (rule visit_returns)
  fix g s
  assume "g \<in> set (groups_of_module img m)"
  then obtain items where "cutest_group_t.ppItems (group_at img g) = Some items"
    using assms(2) by blast
  then show "\<exists>s'. CuTestGenerateReport_Group img h (Some g) s = Inr s'"
    by (rule CuTestGenerateReport_Group_returns)
qed

lemma CuTest_GenerateRunReport_writes:
  "\<exists>w' report. CuTest_GenerateRunReport main_image writable_libc (Some main_root) (Some 0)
                   (Some ''report.html'') main_world = Inr w' \<and>
               files w' ''report.html'' = Some report \<and> report \<noteq> []"
proof -
  have "\<exists>st'. CuTestGenerateReport_Module main_image main_heap (Some 1) st = Inr st'" for st
    by (rule CuTestGenerateReport_Module_returns [of _ _ "\<lambda>i. if i = 0 then Some 1 else None"])
       (simp_all add: main_image_simps main_items)
  then have "\<exists>st'. CuTest_GenerateRunReport_item main_image main_heap (asItems main_root 0) st
                     = Inr st'" for st
    by (simp add: CuTest_GenerateRunReport_item_def main_root_def)
  then have "\<exists>st'. fold (CuTest_GenerateRunReport_iter main_image main_heap main_root) [0..<1]
                     (Inr st) = Inr st'" for st
    by (simp add: CuTest_GenerateRunReport_iter_def)
  then have "\<exists>report. CuTest_GenerateRunReport_text main_image writable_libc main_heap main_root
                         ''Unnamed Project'' (Some 0) = Inr report \<and> report \<noteq> []"
    unfolding CuTest_GenerateRunReport_text_def
    by (simp add: CuTestGetTimestampString_def writable_libc_def CUTEST_TIMESTAMP_MAX_LEN_def
        main_root_stats main_root_def [THEN arg_cong, of ulCount] split: sum.splits
        del: append.simps upt_Suc) (metis Inl_Inr_False)
  then show ?thesis
    by (auto simp: CuTest_GenerateRunReport_def main_root_def [THEN arg_cong, of ulCount]
        main_root_def [THEN arg_cong, of cutest_root_t.pszName]
        CUTEST_MAX_NUM_ROOT_ITEM_def writable_libc_def main_world_def)
qed

lemma full_run_stops:
  assumes "ulCount r = CUTEST_MAX_NUM_ROOT_ITEM"
  shows "CuTestGetStats img h (Some r) = Inl Assert_Failed"
    and "CuTest_GenerateRunReport img c (Some r) pTime pszFile' w = Inl Assert_Failed"
  using assms
  by (simp_all add: CuTestGetStats_def CuTest_GenerateRunReport_def split: option.splits)

lemma CuTest_AppendRootItem_fills:
  assumes "ulCount r = CUTEST_MAX_NUM_ROOT_ITEM - 1"
  shows "\<exists>r'. CuTest_AppendRootItem (Some r) eType' (Some a) = Inr r' \<and>
              ulCount r' = CUTEST_MAX_NUM_ROOT_ITEM"
  using assms by (simp add: CuTest_AppendRootItem_def CUTEST_MAX_NUM_ROOT_ITEM_def ul_add_def)

text \<open>
  The aggregator returns statistics for every run below the limit of the assertion,
  in a program whose groups and modules all have their arrays (as those that
  \<open>TEST_GROUP\<close> and \<open>TEST_MODULE\<close> define have).
\<close>

lemma CuTestGetStats_Module_returns:
  assumes "\<And>g. cutest_group_t.ppItems (group_at img g) \<noteq> None"
    and "cutest_module_t.ppItems (module_at img m) \<noteq> None"
  shows "\<exists>s. CuTestGetStats_Module img h (Some m) = Inr s"
proof -
  obtain gitems where gitems: "cutest_module_t.ppItems (module_at img m) = Some gitems"
    using assms(2) by blast
  have "\<exists>s. CuTestGetStats_Group img h (Some g) = Inr s" for g
    using assms(1) [of g] CuTestGetStats_Group_run [of img g _ h] by blast
  then have "\<exists>s'. (case CuTestGetStats_Group img h (Some g) of
                   Inl e \<Rightarrow> Inl e
                 | Inr sGroup \<Rightarrow> Inr (stats_add s sGroup)) = Inr s'" for g s
    by (metis sum.simps(6))
  then show ?thesis
    unfolding CuTestGetStats_Module_visit [OF gitems]
    by (intro visit_returns)
qed

lemma CuTestGetStats_returns:
  assumes "ulCount r < CUTEST_MAX_NUM_ROOT_ITEM"
    and "\<And>g. cutest_group_t.ppItems (group_at img g) \<noteq> None"
    and "\<And>m. cutest_module_t.ppItems (module_at img m) \<noteq> None"
  shows "\<exists>s. CuTestGetStats img h (Some r) = Inr s"
proof -
  have item: "\<exists>s. CuTestGetStats_item img h it = Inr s" for it
  proof (cases "pItem it")
    case None
    then show ?thesis by (simp add: CuTestGetStats_item_def)
  next
    case (Some a)
    have "\<exists>s. CuTestGetStats_Group img h (Some a) = Inr s"
      using assms(2) [of a] CuTestGetStats_Group_run [of img a _ h] by blast
    moreover have "\<exists>s. CuTestGetStats_Module img h (Some a) = Inr s"
      using assms(2,3) by (intro CuTestGetStats_Module_returns)
    ultimately show ?thesis
      using Some
      by (cases "eType it") (simp_all add: CuTestGetStats_item_def CuTestGetStats_Case_def)
  qed
  have "\<exists>s. fold (CuTestGetStats_iter img h r) is (Inr acc) = Inr s" for "is" acc
  proof (induction "is" arbitrary: acc)
    case Nil
    show ?case by simp
  next
    case (Cons i rest)
    obtain si where "CuTestGetStats_item img h (asItems r i) = Inr si"
      using item by blast
    then have "CuTestGetStats_iter img h r i (Inr acc) = Inr (stats_add acc si)"
      by (simp add: CuTestGetStats_iter_def)
    then show ?case using Cons.IH [of "stats_add acc si"] by simp
  qed
  then show ?thesis
    using assms(1) by (simp add: CuTestGetStats_def)
qed

lemma append_items_fills:
  "ulCount r + n \<le> CUTEST_MAX_NUM_ROOT_ITEM \<Longrightarrow>
   \<exists>r'. append_items n t (Some a) r = Inr r' \<and> ulCount r' = ulCount r + n \<and>
        cutest_root_t.pszName r' = cutest_root_t.pszName r"
proof (induction n arbitrary: r)
  case 0
  show ?case by simp
next
  case (Suc n)
  let ?r = "r\<lparr>asItems := (asItems r)(ulCount r := \<lparr>eType = t, pItem = Some a\<rparr>),
              ulCount := ul_add (ulCount r) 1\<rparr>"
  have step: "CuTest_AppendRootItem (Some r) t (Some a) = Inr ?r"
    using Suc.prems by (simp add: CuTest_AppendRootItem_def)
  have count: "ulCount ?r = ulCount r + 1"
    using Suc.prems by (simp add: ul_add_def CUTEST_MAX_NUM_ROOT_ITEM_def)
  then have "ulCount ?r + n \<le> CUTEST_MAX_NUM_ROOT_ITEM"
    using Suc.prems by simp
  from Suc.IH [OF this] count show ?case
    by (simp add: step)
qed

text \<open>
  Claim C8 at a run with \<open>CUTEST_MAX_NUM_ROOT_ITEM\<close> root elements.
  \<open>CuTest_AppendRootItem\<close> accepts all 32 of them; with a file that cannot be opened,
  \<open>CuTest_GenerateRunReport\<close> then does not return silently: its assertion
  \<open>ulCount < CUTEST_MAX_NUM_ROOT_ITEM\<close> stops the program before \<open>fopen\<close> is called.
\<close>

theorem CuTest_GenerateRunReport_full_run_aborts:
  "map_sum id ulCount
       (append_items 32 EN_CUTEST_TYPE_CASE (Some 1) (BEGIN_TEST_RUN ''Unnamed Project''))
     = Inr 32 \<and>
   \<not> fopen_w readonly_libc ''report.html'' \<and>
   (case append_items 32 EN_CUTEST_TYPE_CASE (Some 1) (BEGIN_TEST_RUN ''Unnamed Project'') of
      Inl e \<Rightarrow> Inl e
    | Inr r \<Rightarrow> CuTest_GenerateRunReport main_image readonly_libc (Some r) (Some 0)
                 (Some ''report.html'') main_world)
     = Inl Assert_Failed"
proof -
  have "ulCount (BEGIN_TEST_RUN ''Unnamed Project'') + 32 \<le> CUTEST_MAX_NUM_ROOT_ITEM"
    by (simp add: BEGIN_TEST_RUN_def CUTEST_MAX_NUM_ROOT_ITEM_def)
  from append_items_fills [OF this, of EN_CUTEST_TYPE_CASE 1]
  obtain r where r: "append_items 32 EN_CUTEST_TYPE_CASE (Some 1)
                       (BEGIN_TEST_RUN ''Unnamed Project'') = Inr r"
    and count: "ulCount r = 32"
    by (auto simp: BEGIN_TEST_RUN_def)
  have full: "ulCount r = CUTEST_MAX_NUM_ROOT_ITEM"
    using count by (simp add: CUTEST_MAX_NUM_ROOT_ITEM_def)
  have "CuTest_GenerateRunReport main_image readonly_libc (Some r) (Some 0)
          (Some ''report.html'') main_world = Inl Assert_Failed"
    by (rule full_run_stops(2) [OF full])
  then show ?thesis
    using r count by (simp add: readonly_libc_def)
qed

end
